theory Spec2Isabelle
  imports Complex_Main "HOL-Library.Word" "HOL-Library.Sublist"
begin

unbundle bit_operations_syntax

section \<open>Python strings\<close>

text \<open>
  A Python \<^verbatim>\<open>str\<close> is modelled as a \<^typ>\<open>string\<close>: the character with code \<open>n\<close>
  stands for the code point \<open>n\<close>, so the model covers the strings whose code points are
  below 256 (ASCII and Latin-1), and \<^const>\<open>length\<close> counts code points as \<^verbatim>\<open>len\<close> does.
  The predicates and conversions below are the ones of CPython on that range.
\<close>

definition whitespace_chars :: "char list" where
  "whitespace_chars =
     [CHR 0x09, CHR 0x0A, CHR 0x0B, CHR 0x0C, CHR 0x0D, CHR 0x1C, CHR 0x1D, CHR 0x1E,
      CHR 0x1F, CHR 0x20, CHR 0x85, CHR 0xA0]"

definition py_isspace :: "char \<Rightarrow> bool" where
  "py_isspace c = (c \<in> set whitespace_chars)"

definition py_lstrip :: "string \<Rightarrow> string" where
  "py_lstrip s = dropWhile py_isspace s"

definition py_rstrip :: "string \<Rightarrow> string" where
  "py_rstrip s = rev (dropWhile py_isspace (rev s))"

definition py_strip :: "string \<Rightarrow> string" where
  "py_strip s = py_rstrip (py_lstrip s)"

definition is_upper_char :: "char \<Rightarrow> bool" where
  "is_upper_char c =
     (let n = (of_char c :: nat)
      in (65 \<le> n \<and> n \<le> 90) \<or> (192 \<le> n \<and> n \<le> 222 \<and> n \<noteq> 215))"

definition lower_char :: "char \<Rightarrow> char" where
  "lower_char c = (if is_upper_char c then char_of (of_char c + (32 :: nat)) else c)"

definition py_lower :: "string \<Rightarrow> string" where
  "py_lower s = map lower_char s"

definition startswith :: "string \<Rightarrow> string \<Rightarrow> bool" where
  "startswith s p = (take (length p) s = p)"

text \<open>\<^verbatim>\<open>sub in s\<close>: \<open>sub\<close> occurs in \<open>s\<close> as a contiguous substring.\<close>

fun py_in :: "string \<Rightarrow> string \<Rightarrow> bool" where
  "py_in sub [] = (sub = [])"
| "py_in sub (c # cs) = (startswith (c # cs) sub \<or> py_in sub cs)"

text \<open>\<^verbatim>\<open>s.split()\<close>: the maximal runs of non-whitespace characters; \<open>w\<close> is the word being read.\<close>

fun split_ws_from :: "string \<Rightarrow> string \<Rightarrow> string list" where
  "split_ws_from w [] = (if w = [] then [] else [w])"
| "split_ws_from w (c # cs) =
     (if py_isspace c then (if w = [] then split_ws_from [] cs else w # split_ws_from [] cs)
      else split_ws_from (w @ [c]) cs)"

definition py_split_ws :: "string \<Rightarrow> string list" where
  "py_split_ws s = split_ws_from [] s"

fun py_join :: "string \<Rightarrow> string list \<Rightarrow> string" where
  "py_join sep [] = []"
| "py_join sep [x] = x"
| "py_join sep (x # y # ys) = x @ sep @ py_join sep (y # ys)"

text \<open>The part of \<open>s\<close> before the last occurrence of \<open>c\<close> (\<open>s\<close> itself has to contain \<open>c\<close>).\<close>

definition before_last :: "char \<Rightarrow> string \<Rightarrow> string" where
  "before_last c s = rev (drop 1 (dropWhile (\<lambda>x. x \<noteq> c) (rev s)))"

section \<open>Titles (\<^verbatim>\<open>rss_scraper.py\<close>)\<close>

text \<open>
  \<^verbatim>\<open>re.sub(r'\s*-\s*[^-]*$', '', title)\<close>: a match is optional whitespace, a dash, and a rest
  without any dash up to the end, so the dash is the last one of the string and the
  leftmost match starts at the whitespace run in front of it. What is left is the text
  before the last dash without its trailing whitespace. (\<^verbatim>\<open>\s\<close> of a \<^verbatim>\<open>str\<close> pattern is
  \<^verbatim>\<open>str.isspace\<close>; \<^verbatim>\<open>re.IGNORECASE\<close> changes nothing in these three patterns.)
\<close>

definition sub_dash_suffix :: "string \<Rightarrow> string" where
  "sub_dash_suffix s =
     (if CHR ''-'' \<in> set s then py_rstrip (before_last (CHR ''-'') s) else s)"

text \<open>\<^verbatim>\<open>re.sub(r'^\s*[|\-]\s*', '', title)\<close>: one leading bar or dash with the whitespace around it.\<close>

definition sub_leading_sep :: "string \<Rightarrow> string" where
  "sub_leading_sep s =
     (case py_lstrip s of
        [] \<Rightarrow> s
      | c # r \<Rightarrow> if c = CHR ''|'' \<or> c = CHR ''-'' then py_lstrip r else s)"

text \<open>\<^verbatim>\<open>re.sub(r'\s*[|\-]\s*$', '', title)\<close>: one trailing bar or dash with the whitespace around it.\<close>

definition sub_trailing_sep :: "string \<Rightarrow> string" where
  "sub_trailing_sep s =
     (case rev (py_rstrip s) of
        [] \<Rightarrow> s
      | c # r \<Rightarrow> if c = CHR ''|'' \<or> c = CHR ''-'' then py_rstrip (rev r) else s)"

text \<open>\<^verbatim>\<open>s.rsplit(' ', 1)[0]\<close>\<close>

definition rsplit_space_head :: "string \<Rightarrow> string" where
  "rsplit_space_head s = (if CHR '' '' \<in> set s then before_last (CHR '' '') s else s)"

definition clean_title :: "string \<Rightarrow> string" where
  "clean_title title =
     (if title = [] then []
      else
        let t0 = py_join '' '' (py_split_ws title);
            t3 = sub_trailing_sep (sub_leading_sep (sub_dash_suffix t0));
            t4 = (if length t3 > 200 then rsplit_space_head (take 200 t3) @ ''...'' else t3)
        in py_strip t4)"

definition invalid_titles :: "string list" where
  "invalid_titles =
     [''untitled'', ''no title'', ''article'', ''news'', ''page not found'', ''error'',
      ''404'', ''access denied'']"

definition is_valid_title :: "string \<Rightarrow> bool" where
  "is_valid_title title =
     (if title = [] \<or> length (py_strip title) < 10 then False
      else
        let title_lower = py_strip (py_lower title)
        in if list_ex (\<lambda>inv. py_in inv title_lower) invalid_titles then False else True)"

section \<open>Content-addressed identifiers: MD5 of the URL\<close>

text \<open>
  \<^verbatim>\<open>generate_id\<close> hashes the UTF-8 bytes of the URL with MD5 (RFC 1321) and renders the
  16-byte digest as lower-case hexadecimal. A code point below 128 is one byte, one from
  128 to 255 is two.
\<close>

type_synonym byte = "8 word"
type_synonym u32 = "32 word"

definition utf8_char :: "char \<Rightarrow> byte list" where
  "utf8_char c =
     (let n = (of_char c :: nat)
      in if n < 128 then [of_nat n] else [of_nat (192 + n div 64), of_nat (128 + n mod 64)])"

definition utf8_encode :: "string \<Rightarrow> byte list" where
  "utf8_encode s = concat (map utf8_char s)"

definition md5_K :: "u32 list" where
  "md5_K =
    [0xd76aa478, 0xe8c7b756, 0x242070db, 0xc1bdceee, 0xf57c0faf, 0x4787c62a, 0xa8304613, 0xfd469501,
     0x698098d8, 0x8b44f7af, 0xffff5bb1, 0x895cd7be, 0x6b901122, 0xfd987193, 0xa679438e, 0x49b40821,
     0xf61e2562, 0xc040b340, 0x265e5a51, 0xe9b6c7aa, 0xd62f105d, 0x02441453, 0xd8a1e681, 0xe7d3fbc8,
     0x21e1cde6, 0xc33707d6, 0xf4d50d87, 0x455a14ed, 0xa9e3e905, 0xfcefa3f8, 0x676f02d9, 0x8d2a4c8a,
     0xfffa3942, 0x8771f681, 0x6d9d6122, 0xfde5380c, 0xa4beea44, 0x4bdecfa9, 0xf6bb4b60, 0xbebfbc70,
     0x289b7ec6, 0xeaa127fa, 0xd4ef3085, 0x04881d05, 0xd9d4d039, 0xe6db99e5, 0x1fa27cf8, 0xc4ac5665,
     0xf4292244, 0x432aff97, 0xab9423a7, 0xfc93a039, 0x655b59c3, 0x8f0ccc92, 0xffeff47d, 0x85845dd1,
     0x6fa87e4f, 0xfe2ce6e0, 0xa3014314, 0x4e0811a1, 0xf7537e82, 0xbd3af235, 0x2ad7d2bb, 0xeb86d391]"

definition md5_s :: "nat list" where
  "md5_s =
    [7, 12, 17, 22, 7, 12, 17, 22, 7, 12, 17, 22, 7, 12, 17, 22,
     5, 9, 14, 20, 5, 9, 14, 20, 5, 9, 14, 20, 5, 9, 14, 20,
     4, 11, 16, 23, 4, 11, 16, 23, 4, 11, 16, 23, 4, 11, 16, 23,
     6, 10, 15, 21, 6, 10, 15, 21, 6, 10, 15, 21, 6, 10, 15, 21]"

definition le64 :: "64 word \<Rightarrow> byte list" where
  "le64 w = map (\<lambda>i. ucast (drop_bit (8 * i) w)) [0..<8]"

definition md5_pad :: "byte list \<Rightarrow> byte list" where
  "md5_pad msg =
     msg @ [0x80] @ replicate ((119 - length msg mod 64) mod 64) 0 @ le64 (8 * word_of_nat (length msg))"

definition le32 :: "byte list \<Rightarrow> u32" where
  "le32 bs = foldr (\<lambda>b w. ucast b OR push_bit 8 w) bs 0"

definition md5_words :: "byte list \<Rightarrow> u32 list" where
  "md5_words block = map (\<lambda>j. le32 (take 4 (drop (4 * j) block))) [0..<16]"

type_synonym md5_state = "u32 \<times> u32 \<times> u32 \<times> u32"

definition md5_step :: "u32 list \<Rightarrow> nat \<Rightarrow> md5_state \<Rightarrow> md5_state" where
  "md5_step M i st =
     (case st of (A, B, C, D) \<Rightarrow>
        let (F, g) =
              (if i < 16 then ((B AND C) OR (NOT B AND D), i)
               else if i < 32 then ((D AND B) OR (NOT D AND C), (5 * i + 1) mod 16)
               else if i < 48 then (B XOR C XOR D, (3 * i + 5) mod 16)
               else (C XOR (B OR NOT D), (7 * i) mod 16));
            F' = F + A + md5_K ! i + M ! g
        in (D, B + word_rotl (md5_s ! i) F', B, C))"

definition md5_block :: "md5_state \<Rightarrow> byte list \<Rightarrow> md5_state" where
  "md5_block st block =
     (case st of (a0, b0, c0, d0) \<Rightarrow>
        case foldl (\<lambda>s i. md5_step (md5_words block) i s) st [0..<64] of
          (A, B, C, D) \<Rightarrow> (a0 + A, b0 + B, c0 + C, d0 + D))"

definition md5_blocks :: "byte list \<Rightarrow> byte list list" where
  "md5_blocks padded = map (\<lambda>i. take 64 (drop (64 * i) padded)) [0..<length padded div 64]"

definition md5_init :: md5_state where
  "md5_init = (0x67452301, 0xefcdab89, 0x98badcfe, 0x10325476)"

definition md5 :: "byte list \<Rightarrow> md5_state" where
  "md5 msg = foldl md5_block md5_init (md5_blocks (md5_pad msg))"

definition bytes_of_u32 :: "u32 \<Rightarrow> byte list" where
  "bytes_of_u32 w = map (\<lambda>i. ucast (drop_bit (8 * i) w)) [0..<4]"

definition md5_digest :: "byte list \<Rightarrow> byte list" where
  "md5_digest msg =
     (case md5 msg of (a, b, c, d) \<Rightarrow>
        bytes_of_u32 a @ bytes_of_u32 b @ bytes_of_u32 c @ bytes_of_u32 d)"

definition hex_chars :: string where
  "hex_chars = ''0123456789abcdef''"

definition hex_digit :: "nat \<Rightarrow> char" where
  "hex_digit n = hex_chars ! (n mod 16)"

definition hex_byte :: "byte \<Rightarrow> string" where
  "hex_byte b = [hex_digit (unat b div 16), hex_digit (unat b mod 16)]"

definition hexdigest :: "byte list \<Rightarrow> string" where
  "hexdigest bs = concat (map hex_byte bs)"

text \<open>\<^verbatim>\<open>hashlib.md5(url.encode('utf-8')).hexdigest()\<close>\<close>

definition generate_id :: "string \<Rightarrow> string" where
  "generate_id url = hexdigest (md5_digest (utf8_encode url))"

section \<open>More string operations\<close>

text \<open>\<^verbatim>\<open>s.rfind(c)\<close> for a single character: the last index of \<open>c\<close>, or \<open>-1\<close>.\<close>

definition rfind :: "char \<Rightarrow> string \<Rightarrow> int" where
  "rfind c s = (if c \<in> set s then int (length (before_last c s)) else - 1)"

text \<open>
  \<^verbatim>\<open>s.replace(old, new)\<close> and \<^verbatim>\<open>s.split(sep)\<close> for a non-empty \<open>old\<close> or \<open>sep\<close>: the
  occurrences are found from the left and do not overlap; the counter is the number of
  characters of the current occurrence still to be skipped.
\<close>

fun replace_from :: "string \<Rightarrow> string \<Rightarrow> nat \<Rightarrow> string \<Rightarrow> string" where
  "replace_from old new n [] = []"
| "replace_from old new (Suc n) (c # cs) = replace_from old new n cs"
| "replace_from old new 0 (c # cs) =
     (if startswith (c # cs) old then new @ replace_from old new (length old - 1) cs
      else c # replace_from old new 0 cs)"

definition py_replace :: "string \<Rightarrow> string \<Rightarrow> string \<Rightarrow> string" where
  "py_replace old new s = replace_from old new 0 s"

fun split_from :: "string \<Rightarrow> nat \<Rightarrow> string \<Rightarrow> string \<Rightarrow> string list" where
  "split_from sep n cur [] = [cur]"
| "split_from sep (Suc n) cur (c # cs) = split_from sep n cur cs"
| "split_from sep 0 cur (c # cs) =
     (if startswith (c # cs) sep then cur # split_from sep (length sep - 1) [] cs
      else split_from sep 0 (cur @ [c]) cs)"

definition py_split :: "string \<Rightarrow> string \<Rightarrow> string list" where
  "py_split sep s = split_from sep 0 [] s"

text \<open>
  \<^verbatim>\<open>word.capitalize()\<close>: the first character in title case, the rest in lower case. The
  title case of \<^verbatim>\<open>U+00DF\<close> is the two characters \<^verbatim>\<open>Ss\<close>; those of \<^verbatim>\<open>U+00B5\<close> and
  \<^verbatim>\<open>U+00FF\<close> lie beyond code point 255 and the model leaves these two unchanged: on a
  word that starts with one of them \<open>capitalize\<close>, and with it \<open>extract_title_from_url\<close>
  below, differs from the code in that one character.
\<close>

definition is_lower_char :: "char \<Rightarrow> bool" where
  "is_lower_char c =
     (let n = (of_char c :: nat)
      in (97 \<le> n \<and> n \<le> 122) \<or> (224 \<le> n \<and> n \<le> 254 \<and> n \<noteq> 247))"

definition title_char :: "char \<Rightarrow> string" where
  "title_char c =
     (if is_lower_char c then [char_of (of_char c - (32 :: nat))]
      else if c = CHR 0xDF then ''Ss'' else [c])"

fun capitalize :: "string \<Rightarrow> string" where
  "capitalize [] = []"
| "capitalize (c # cs) = title_char c @ py_lower cs"

section \<open>Text truncation and the title heuristics\<close>

text \<open>
  \<^verbatim>\<open>truncate_text\<close> is only called with its default \<^verbatim>\<open>max_tokens = 800\<close>, so
  \<^verbatim>\<open>max_chars\<close> is 3200 and the floating-point product \<^verbatim>\<open>max_chars * 0.8\<close> is exactly 2560.
\<close>

definition max_chars :: nat where
  "max_chars = 800 * 4"

definition truncate_text :: "string \<Rightarrow> string" where
  "truncate_text text =
     (if text = [] then text
      else if length text \<le> max_chars then text
      else
        let truncated = take max_chars text;
            last_period = rfind (CHR ''.'') truncated
        in if last_period > 2560 then take (nat (last_period + 1)) truncated else truncated)"

text \<open>
  \<^verbatim>\<open>re.split(r'[.!?]+', text)\<close>: the pieces between the maximal runs of sentence
  terminators; \<open>cur\<close> is the piece being read and the flag says that the previous
  character belonged to a run.
\<close>

definition is_terminator :: "char \<Rightarrow> bool" where
  "is_terminator c = (c = CHR ''.'' \<or> c = CHR ''!'' \<or> c = CHR ''?'')"

fun split_sentences_from :: "string \<Rightarrow> bool \<Rightarrow> string \<Rightarrow> string list" where
  "split_sentences_from cur in_run [] = [cur]"
| "split_sentences_from cur in_run (c # cs) =
     (if is_terminator c then
        (if in_run then split_sentences_from cur True cs
         else cur # split_sentences_from [] True cs)
      else split_sentences_from (cur @ [c]) False cs)"

definition split_sentences :: "string \<Rightarrow> string list" where
  "split_sentences text = split_sentences_from [] False text"

definition lead_ins :: "string list" where
  "lead_ins = [''the article'', ''this article'', ''according to'', ''in a'', ''on '', ''at '']"

fun title_from_sentences :: "string list \<Rightarrow> string option" where
  "title_from_sentences [] = None"
| "title_from_sentences (s # ss) =
     (let sentence = py_strip s
      in if 15 \<le> length sentence \<and> length sentence \<le> 150
            \<and> \<not> list_ex (startswith (py_lower sentence)) lead_ins
         then (let cleaned = clean_title sentence
               in if is_valid_title cleaned then Some cleaned else title_from_sentences ss)
         else title_from_sentences ss)"

definition extract_title_from_content :: "string \<Rightarrow> string option" where
  "extract_title_from_content text =
     (if text = [] \<or> length text < 50 then None
      else title_from_sentences (take 5 (split_sentences text)))"

text \<open>\<^verbatim>\<open>max(parts, key=len)\<close>: the first part of maximal length (\<open>best\<close> is the maximum so far).\<close>

fun longest_from :: "string \<Rightarrow> string list \<Rightarrow> string" where
  "longest_from best [] = best"
| "longest_from best (p # ps) = longest_from (if length p > length best then p else best) ps"

definition extract_title_from_url :: "string \<Rightarrow> string" where
  "extract_title_from_url url =
     (let clean_url = py_replace ''www.'' [] (py_replace ''http://'' [] (py_replace ''https://'' [] url));
          parts = py_split ''/'' clean_url
      in if length parts \<ge> 2 then
           (let meaningful_parts =
                  filter (\<lambda>p. length p > 4 \<and> \<not> list_ex (\<lambda>x. py_in x p) [''index'', ''html''])
                    (tl parts)
            in case meaningful_parts of
                 [] \<Rightarrow> ''News Article''
               | p # ps \<Rightarrow>
                   let title_part = longest_from p ps
                   in py_join '' ''
                        (map capitalize
                           (py_split_ws (py_replace ''_'' '' '' (py_replace ''-'' '' '' title_part)))))
         else ''News Article'')"

text \<open>The generic label of the last resort names the host part of the URL.\<close>

definition source_label :: "string \<Rightarrow> string" where
  "source_label url =
     ''Article from '' @
       (if py_in ''//'' url then hd (py_split ''/'' (py_split ''//'' url ! 1))
        else ''Unknown Source'')"

section \<open>Entity post-processing (\<^verbatim>\<open>entities.py\<close>, \<^verbatim>\<open>rss_scraper.py\<close>)\<close>

text \<open>
  A raw entity is a Python dictionary; the record holds what the code reads from it.
  \<open>raw_name\<close> is \<^verbatim>\<open>entity.get("name")\<close> when that is a \<^verbatim>\<open>str\<close>, and \<open>None\<close> when the key
  is missing or the value is \<^verbatim>\<open>None\<close> or not a string. For \<open>raw_type\<close> and
  \<open>raw_sentiment\<close>, \<open>None\<close> says that the key is missing and \<open>Some s\<close> that the value
  prints as \<open>s\<close> under \<^verbatim>\<open>str\<close>. The score is absent or \<^verbatim>\<open>None\<close>, a value that \<^verbatim>\<open>float\<close>
  converts, or a value on which \<^verbatim>\<open>float\<close> raises. Scores are only carried along, never
  computed with, so a real number stands for the floating-point value.
\<close>

datatype score_val = ScoreNone | ScoreOk real | ScoreBad

record raw_entity =
  raw_name :: "string option"
  raw_type :: "string option"
  raw_sentiment :: "string option"
  raw_bias :: "string option"
  raw_score :: score_val

record entity =
  ent_name :: string
  ent_type :: string
  ent_sentiment :: string
  ent_bias :: "string option"
  ent_score :: real

definition digit_chars :: "char list" where
  "digit_chars = ''0123456789'' @ [CHR 0xB2, CHR 0xB3, CHR 0xB9]"

text \<open>\<^verbatim>\<open>name.isdigit()\<close>: not empty and digits only.\<close>

definition py_isdigit :: "string \<Rightarrow> bool" where
  "py_isdigit s = (s \<noteq> [] \<and> list_all (\<lambda>c. c \<in> set digit_chars) s)"

definition punctuation_chars :: "char list" where
  "punctuation_chars = ''.,!?;:()-[]{}'' @ [CHR 0x22, CHR 0x27]"

text \<open>The body of the first loop of \<^verbatim>\<open>_validate_entities\<close>; \<open>None\<close> is \<^verbatim>\<open>continue\<close>.\<close>

definition validate_entity :: "raw_entity \<Rightarrow> entity option" where
  "validate_entity entity =
     (case raw_name entity of
        None \<Rightarrow> None
      | Some name0 \<Rightarrow>
          if name0 = [] then None
          else
            let name = py_strip name0
            in if name = [] \<or> length name < 2 then None
               else if py_isdigit name \<or> list_all (\<lambda>c. c \<in> set punctuation_chars) name then None
               else
                 (case (case raw_score entity of
                          ScoreNone \<Rightarrow> Some 0.5 | ScoreOk r \<Rightarrow> Some r | ScoreBad \<Rightarrow> None) of
                    None \<Rightarrow> None
                  | Some sc \<Rightarrow>
                      let ty = py_lower (case raw_type entity of None \<Rightarrow> ''misc'' | Some t \<Rightarrow> t);
                          se = py_lower (case raw_sentiment entity of None \<Rightarrow> ''neutral'' | Some t \<Rightarrow> t);
                          se' = (if se \<notin> set [''positive'', ''negative'', ''neutral''] then ''neutral'' else se)
                      in Some \<lparr>ent_name = name, ent_type = ty, ent_sentiment = se',
                               ent_bias = raw_bias entity, ent_score = sc\<rparr>))"

text \<open>The second loop: \<^verbatim>\<open>seen_names\<close> is the set of lower-cased names met so far.\<close>

fun unique_entities :: "string set \<Rightarrow> entity list \<Rightarrow> entity list" where
  "unique_entities seen_names [] = []"
| "unique_entities seen_names (entity # validated) =
     (let name_lower = py_lower (ent_name entity)
      in if name_lower \<notin> seen_names
         then entity # unique_entities (insert name_lower seen_names) validated
         else unique_entities seen_names validated)"

definition validate_entities :: "raw_entity list \<Rightarrow> entity list" where
  "validate_entities entities = unique_entities {} (List.map_filter validate_entity entities)"

text \<open>
  \<^verbatim>\<open>extract_entities\<close>: the spaCy model when it is loaded, else the transformers pipeline,
  else nothing. Both models are parameters; each gives the raw entries that the
  extraction helper built from the model's output (\<open>None\<close> when the model is not loaded),
  and the helpers catch the model's exceptions themselves.
\<close>

record ner_models =
  nlp_spacy :: "(string \<Rightarrow> raw_entity list) option"
  ner_pipeline :: "(string \<Rightarrow> raw_entity list) option"

definition extract_entities :: "ner_models \<Rightarrow> string \<Rightarrow> entity list" where
  "extract_entities models text =
     (if text = [] then []
      else case nlp_spacy models of
             Some spacy \<Rightarrow> validate_entities (spacy text)
           | None \<Rightarrow>
               (case ner_pipeline models of
                  Some ner \<Rightarrow> validate_entities (ner text)
                | None \<Rightarrow> []))"

text \<open>
  Modelled from the spec: \<^verbatim>\<open>EntitySentiment\<close> of \<^verbatim>\<open>backend/models/article_model.py\<close>, which is
  not among the sources. It is the record of section 3 of the specification (name, type,
  sentiment, optional bias, score); what its validation accepts is a parameter
  (\<open>entity_sentiment_ok\<close> below), and an accepted value holds the fields it was given.
\<close>

record entity_sentiment =
  es_name :: string
  es_type :: string
  es_sentiment :: string
  es_bias :: "string option"
  es_score :: score_val

text \<open>\<^verbatim>\<open>validate_and_create_entities\<close>; \<open>None\<close> as the input is Python's \<^verbatim>\<open>None\<close>.\<close>

definition create_entity :: "(entity_sentiment \<Rightarrow> bool) \<Rightarrow> raw_entity \<Rightarrow> entity_sentiment option" where
  "create_entity entity_sentiment_ok e =
     (case raw_name e of
        None \<Rightarrow> None
      | Some name \<Rightarrow>
          if py_strip name = [] then None
          else
            let entity = \<lparr>es_name = py_strip name,
                          es_type = (case raw_type e of None \<Rightarrow> ''misc'' | Some t \<Rightarrow> t),
                          es_sentiment = (case raw_sentiment e of None \<Rightarrow> ''neutral'' | Some t \<Rightarrow> t),
                          es_bias = raw_bias e, es_score = raw_score e\<rparr>
            in if entity_sentiment_ok entity then Some entity else None)"

definition validate_and_create_entities ::
  "(entity_sentiment \<Rightarrow> bool) \<Rightarrow> raw_entity list option \<Rightarrow> entity_sentiment list" where
  "validate_and_create_entities entity_sentiment_ok entities_data =
     (case entities_data of
        None \<Rightarrow> []
      | Some es \<Rightarrow> List.map_filter (create_entity entity_sentiment_ok) es)"

text \<open>A validated entity as the dictionary that \<^verbatim>\<open>_validate_entities\<close> returns.\<close>

definition entity_dict :: "entity \<Rightarrow> raw_entity" where
  "entity_dict e =
     \<lparr>raw_name = Some (ent_name e), raw_type = Some (ent_type e),
      raw_sentiment = Some (ent_sentiment e), raw_bias = ent_bias e,
      raw_score = ScoreOk (ent_score e)\<rparr>"

section \<open>Documents, the store and the external calls\<close>

text \<open>
  Modelled from the spec: \<^verbatim>\<open>ArticleDoc\<close> of \<^verbatim>\<open>backend/models/article_model.py\<close>, which is not
  among the sources. It is the enriched document of section 3 of the specification, with
  the fields that \<^verbatim>\<open>process_single_article\<close> passes to its constructor; what its
  validation accepts is a parameter (\<open>article_doc_ok\<close> below), and an accepted document
  holds the fields it was given. A summary or a translation that is Python's \<^verbatim>\<open>None\<close> is
  \<open>None\<close>.
\<close>

record article_doc =
  doc_title :: string
  doc_url :: string
  doc_source_name :: string
  doc_published_date :: "string option"
  doc_language :: string
  doc_original_text :: string
  doc_translated_text :: "string option"
  doc_summary :: "string option"
  doc_bias_overall :: string
  doc_bias_score :: real
  doc_sentiment_overall :: string
  doc_sentiment_score :: real
  doc_entities :: "entity_sentiment list"

text \<open>One action of the bulk request: \<^verbatim>\<open>{"_index": ..., "_id": ..., "_source": ...}\<close>.\<close>

record bulk_action =
  act_index :: string
  act_id :: string
  act_source :: article_doc

datatype exn =
    RuntimeError | AttributeError | ValidationError | NetworkError | AnalyzerError | StoreError

datatype call =
    EsPing
  | EsExists string
  | HttpGet string
  | NewspaperDownload string
  | NlpCall string string
  | EsBulk "string list"

text \<open>
  The world is the document store, a map from identifiers to documents, and the log of the
  calls made to the store, the network and the analyzers, oldest first.
\<close>

record world =
  store :: "string \<rightharpoonup> article_doc"
  calls :: "call list"

definition log_call :: "call \<Rightarrow> world \<Rightarrow> world" where
  "log_call c w = w\<lparr>calls := calls w @ [c]\<rparr>"

record feed_entry =
  entry_title :: string
  entry_link :: "string option"
  entry_published :: "string option"
  entry_source :: string
  entry_description :: string

record http_response =
  status_code :: nat
  response_text :: string

record newspaper_article =
  art_text :: string
  art_title :: string
  art_publish_date :: "string option"

record raw_article =
  raw_title :: "string option"
  raw_text :: string
  raw_method :: string
  raw_publish_date :: "string option"

text \<open>
  The environment holds everything the pipeline calls outside the repository's own code:
  \<^item> \<open>es_reachable\<close>: the answer of \<^verbatim>\<open>es.ping()\<close> in \<^verbatim>\<open>get_es\<close>;
  \<^item> \<open>session_get\<close>: \<^verbatim>\<open>session.get(url, timeout=10)\<close>, which raises or gives a response;
  \<^item> \<open>trafilatura_extract\<close>: \<^verbatim>\<open>trafilatura.extract\<close> on the page, which raises or gives the
    body text or \<^verbatim>\<open>None\<close>;
  \<^item> \<open>trafilatura_meta_title\<close>: the title of \<^verbatim>\<open>trafilatura.extract_metadata\<close>, \<open>None\<close> when
    that call raises or gives no metadata or no title;
  \<^item> \<open>soup_titles\<close>: for BeautifulSoup, the stripped texts that the selector loop of
    \<^verbatim>\<open>extract_title_from_html\<close> visits, in its order (at most three elements for each
    selector); \<open>None\<close> when BeautifulSoup is not installed or cannot parse the page;
  \<^item> \<open>newspaper\<close>: download and parse by newspaper3k, which raises or gives an article;
  \<^item> the six analyzers, each of which raises or gives its result;
  \<^item> \<open>parse_date\<close>: \<^verbatim>\<open>dateutil.parser.parse\<close> followed by \<^verbatim>\<open>isoformat\<close>, \<open>None\<close> when the
    parser raises;
  \<^item> the validations of the two Pydantic models and the configured index name.
\<close>

record env =
  es_reachable :: bool
  session_get :: "string \<Rightarrow> exn + http_response"
  trafilatura_extract :: "string \<Rightarrow> exn + string option"
  trafilatura_meta_title :: "string \<Rightarrow> string option"
  soup_titles :: "string \<Rightarrow> string list option"
  newspaper :: "string \<Rightarrow> exn + newspaper_article"
  detect_language :: "string \<Rightarrow> exn + string"
  translate_to_english :: "string \<Rightarrow> exn + string"
  summarize :: "string \<Rightarrow> exn + string"
  entity_extractor :: "string \<Rightarrow> exn + raw_entity list"
  classify_bias :: "string \<Rightarrow> exn + string \<times> real"
  classify_sentiment :: "string \<Rightarrow> exn + string \<times> real"
  parse_date :: "string \<Rightarrow> string option"
  entity_sentiment_ok :: "entity_sentiment \<Rightarrow> bool"
  article_doc_ok :: "article_doc \<Rightarrow> bool"
  INDEX_NAME :: string

section \<open>Content extraction\<close>

text \<open>\<^verbatim>\<open>not title\<close> for a title that is \<^verbatim>\<open>None\<close> or a string.\<close>

definition falsy :: "string option \<Rightarrow> bool" where
  "falsy t = (t = None \<or> t = Some [])"

definition extract_title_from_html :: "env \<Rightarrow> string \<Rightarrow> string option" where
  "extract_title_from_html e downloaded_html =
     (if downloaded_html = [] then None
      else case soup_titles e downloaded_html of
             None \<Rightarrow> None
           | Some titles \<Rightarrow>
               (case find (\<lambda>t. t \<noteq> [] \<and> is_valid_title t) titles of
                  None \<Rightarrow> None
                | Some t \<Rightarrow> Some (clean_title t)))"

text \<open>Step 1 of \<^verbatim>\<open>download_article\<close>; \<open>None\<close> when the step falls through to step 2.\<close>

definition try_trafilatura :: "env \<Rightarrow> string \<Rightarrow> raw_article option" where
  "try_trafilatura e url =
     (case session_get e url of
        Inl ex \<Rightarrow> None
      | Inr response \<Rightarrow>
          if status_code response = 200 then
            (case trafilatura_extract e (response_text response) of
               Inl ex \<Rightarrow> None
             | Inr None \<Rightarrow> None
             | Inr (Some text) \<Rightarrow>
                 if text \<noteq> [] \<and> length (py_strip text) > 100 then
                   (let t1 = (case trafilatura_meta_title e (response_text response) of
                                None \<Rightarrow> None
                              | Some mt \<Rightarrow>
                                  if mt \<noteq> [] \<and> is_valid_title (clean_title mt)
                                  then Some (clean_title mt) else None);
                        t2 = (if falsy t1 then extract_title_from_html e (response_text response)
                              else t1);
                        t3 = (if falsy t2 then extract_title_from_content text else t2)
                    in Some \<lparr>raw_title = t3, raw_text = text, raw_method = ''trafilatura'',
                             raw_publish_date = None\<rparr>)
                 else None)
          else None)"

text \<open>Step 2 of \<^verbatim>\<open>download_article\<close>.\<close>

definition try_newspaper :: "env \<Rightarrow> string \<Rightarrow> raw_article option" where
  "try_newspaper e url =
     (case newspaper e url of
        Inl ex \<Rightarrow> None
      | Inr art \<Rightarrow>
          if art_text art \<noteq> [] \<and> length (py_strip (art_text art)) > 100 then
            (let title = (if art_title art \<noteq> [] \<and> is_valid_title (clean_title (art_title art))
                          then Some (clean_title (art_title art)) else None)
             in Some \<lparr>raw_title = title, raw_text = art_text art, raw_method = ''newspaper3k'',
                      raw_publish_date = art_publish_date art\<rparr>)
          else None)"

definition download_article :: "env \<Rightarrow> string \<Rightarrow> world \<Rightarrow> world \<times> raw_article option" where
  "download_article e url w =
     (let w1 = log_call (HttpGet url) w
      in case try_trafilatura e url of
           Some raw \<Rightarrow> (w1, Some raw)
         | None \<Rightarrow> (log_call (NewspaperDownload url) w1, try_newspaper e url))"

section \<open>The per-item pipeline\<close>

text \<open>
  The title logic of \<^verbatim>\<open>process_single_article\<close>. \<open>f1\<close> to \<open>f4\<close> are the values of
  \<^verbatim>\<open>final_title\<close> after priorities 1 to 4; the last line is the closing check.
\<close>

definition title_logic :: "feed_entry \<Rightarrow> raw_article \<Rightarrow> string \<Rightarrow> string \<Rightarrow> string" where
  "title_logic entry raw text url =
     (let rss_title = py_strip (entry_title entry);
          f1 = (if rss_title \<noteq> [] \<and> is_valid_title rss_title then Some (clean_title rss_title)
                else None);
          f2 = (if falsy f1 then
                  (case raw_title raw of
                     None \<Rightarrow> f1
                   | Some extracted \<Rightarrow>
                       if extracted \<noteq> [] \<and> is_valid_title extracted
                       then Some (clean_title extracted) else f1)
                else f1);
          f3 = (if falsy f2 then
                  (case extract_title_from_content text of
                     None \<Rightarrow> f2
                   | Some content_title \<Rightarrow>
                       if content_title \<noteq> [] \<and> is_valid_title content_title
                       then Some content_title else f2)
                else f2);
          f4 = (if falsy f3 then Some (extract_title_from_url url) else f3)
      in case f4 of
           None \<Rightarrow> source_label url
         | Some final_title \<Rightarrow>
             if final_title = [] \<or> \<not> is_valid_title final_title then source_label url
             else final_title)"

text \<open>
  \<^verbatim>\<open>safe_nlp_operation\<close>: the operation is called, and an exception becomes \<^verbatim>\<open>None\<close>.
\<close>

definition safe_nlp_operation ::
  "string \<Rightarrow> (string \<Rightarrow> exn + 'a) \<Rightarrow> string \<Rightarrow> world \<Rightarrow> world \<times> 'a option" where
  "safe_nlp_operation operation_name operation_func arg w =
     (log_call (NlpCall operation_name arg) w,
      case operation_func arg of Inl ex \<Rightarrow> None | Inr v \<Rightarrow> Some v)"

record nlp_fields =
  nlp_lang :: string
  nlp_text :: string
  nlp_translated_text :: "string option"
  nlp_summary :: "string option"
  nlp_entities :: "entity_sentiment list"
  nlp_bias_overall :: string
  nlp_bias_score :: real
  nlp_sentiment_overall :: string
  nlp_sentiment_score :: real

text \<open>\<^verbatim>\<open>result[0] or "neutral"\<close> and \<^verbatim>\<open>result[1] or 0.0\<close> for a label and score pair.\<close>

definition label_and_score :: "(string \<times> real) option \<Rightarrow> string \<times> real" where
  "label_and_score result =
     (case result of
        None \<Rightarrow> (''neutral'', 0)
      | Some (label, sc) \<Rightarrow> (if label = [] then ''neutral'' else label, if sc = 0 then 0 else sc))"

text \<open>The NLP pipeline; \<open>nlp_text\<close> is the text the analyzers after the translation saw.\<close>

definition nlp_pipeline :: "env \<Rightarrow> string \<Rightarrow> world \<Rightarrow> world \<times> nlp_fields" where
  "nlp_pipeline e text w =
     (let (w1, detected) = safe_nlp_operation ''Language detection'' (detect_language e) text w;
          lang = (case detected of None \<Rightarrow> ''en'' | Some l \<Rightarrow> if l = [] then ''en'' else l);
          (w2, translated_result) =
            (if lang \<noteq> ''en''
             then safe_nlp_operation ''Translation'' (translate_to_english e) text w1
             else (w1, None));
          (text', translated_text) =
            (case translated_result of
               None \<Rightarrow> (text, None)
             | Some t \<Rightarrow> if t \<noteq> [] then (t, Some t) else (text, None));
          (w3, summary) = safe_nlp_operation ''Summarization'' (summarize e) text' w2;
          (w4, entities_data) =
            safe_nlp_operation ''Entity extraction'' (entity_extractor e) text' w3;
          entities = validate_and_create_entities (entity_sentiment_ok e) entities_data;
          (w5, bias_result) = safe_nlp_operation ''Bias classification'' (classify_bias e) text' w4;
          (bias_overall, bias_score) = label_and_score bias_result;
          (w6, sentiment_result) =
            safe_nlp_operation ''Sentiment classification'' (classify_sentiment e) text' w5;
          (sentiment_overall, sentiment_score) = label_and_score sentiment_result
      in (w6, \<lparr>nlp_lang = lang, nlp_text = text', nlp_translated_text = translated_text,
               nlp_summary = summary, nlp_entities = entities,
               nlp_bias_overall = bias_overall, nlp_bias_score = bias_score,
               nlp_sentiment_overall = sentiment_overall,
               nlp_sentiment_score = sentiment_score\<rparr>))"

text \<open>The publication date: the extractor's, else the feed's when it parses.\<close>

definition format_date :: "env \<Rightarrow> feed_entry \<Rightarrow> raw_article \<Rightarrow> string option" where
  "format_date e entry raw =
     (case raw_publish_date raw of
        Some d \<Rightarrow> Some d
      | None \<Rightarrow>
          (case entry_published entry of
             None \<Rightarrow> None
           | Some p \<Rightarrow> if p = [] then None else parse_date e p))"

definition build_doc ::
  "env \<Rightarrow> feed_entry \<Rightarrow> string \<Rightarrow> raw_article \<Rightarrow> string \<Rightarrow> nlp_fields \<Rightarrow> article_doc" where
  "build_doc e entry url raw final_title n =
     \<lparr>doc_title = final_title,
      doc_url = url,
      doc_source_name = entry_source entry,
      doc_published_date = format_date e entry raw,
      doc_language = nlp_lang n,
      doc_original_text = take 5000 (raw_text raw),
      doc_translated_text = nlp_translated_text n,
      doc_summary = nlp_summary n,
      doc_bias_overall = nlp_bias_overall n,
      doc_bias_score = nlp_bias_score n,
      doc_sentiment_overall = nlp_sentiment_overall n,
      doc_sentiment_score = nlp_sentiment_score n,
      doc_entities = nlp_entities n\<rparr>"

text \<open>
  \<^verbatim>\<open>process_single_article\<close>. The result is \<open>Inl\<close> for an exception that leaves the function,
  \<open>Inr None\<close> for Python's \<^verbatim>\<open>None\<close> (the item is skipped) and \<open>Inr (Some a)\<close> for the bulk
  action of a new document.
\<close>

definition process_single_article ::
  "env \<Rightarrow> feed_entry \<Rightarrow> world \<Rightarrow> world \<times> (exn + bulk_action option)" where
  "process_single_article e entry w =
     (let w0 = log_call EsPing w
      in if \<not> es_reachable e then (w0, Inl RuntimeError)
         else case entry_link entry of
                None \<Rightarrow> (w0, Inl AttributeError)
              | Some url \<Rightarrow>
                  let doc_id = generate_id url;
                      w1 = log_call (EsExists doc_id) w0
                  in if doc_id \<in> dom (store w1) then (w1, Inr None)
                     else
                       (case download_article e url w1 of
                          (w2, None) \<Rightarrow> (w2, Inr None)
                        | (w2, Some raw) \<Rightarrow>
                            let text = truncate_text (raw_text raw);
                                final_title = title_logic entry raw text url;
                                (w3, n) = nlp_pipeline e text w2;
                                article_doc = build_doc e entry url raw final_title n
                            in if article_doc_ok e article_doc
                               then (w3, Inr (Some \<lparr>act_index = INDEX_NAME e, act_id = doc_id,
                                                    act_source = article_doc\<rparr>))
                               else (w3, Inl ValidationError)))"

section \<open>The ingestion cycle\<close>

text \<open>
  The worker pool runs \<^verbatim>\<open>process_single_article\<close> for every entry and collects the results
  that are not \<^verbatim>\<open>None\<close>; an exception of a worker is logged and dropped. No worker writes
  the store, so the results do not depend on the schedule; the model runs the entries in
  the order of the list.
\<close>

fun process_entries :: "env \<Rightarrow> feed_entry list \<Rightarrow> world \<Rightarrow> world \<times> bulk_action list" where
  "process_entries e [] w = (w, [])"
| "process_entries e (entry # entries) w =
     (let (w1, result) = process_single_article e entry w;
          (w2, docs) = process_entries e entries w1
      in (w2, (case result of Inr (Some doc) \<Rightarrow> [doc] | _ \<Rightarrow> []) @ docs))"




section \<open>The crisis agent (\<^verbatim>\<open>agent.py\<close>)\<close>

text \<open>The projection of a hit that the query asks for in \<^verbatim>\<open>_source\<close>.\<close>

record hit_source =
  hit_title :: string
  hit_url :: string
  hit_source_name :: string
  hit_published_date :: "string option"
  hit_summary :: "string option"

text \<open>
  The dictionary that \<^verbatim>\<open>analyze_topic_risk\<close> returns; \<^verbatim>\<open>run_patrol\<close> adds the last two keys to
  a critical one.
\<close>

record risk_record =
  risk_topic :: string
  is_critical :: bool
  article_count :: nat
  articles_data :: "hit_source list"
  top_summary :: string
  ai_assessment :: "string option"
  users_affected :: "string list option"

record user =
  user_email :: string
  user_watchlist :: "string list"

datatype agent_call =
    IndicesExists
  | SearchUsers
  | SearchArticles string
  | GenerateHtmlReport "risk_record list"
  | WebbrowserOpen string

text \<open>
  The agent's environment:
  \<^item> \<open>users_index_exists\<close> and \<open>users_hits\<close>: the answers of the store about the index
    \<^verbatim>\<open>news_users\<close>, each of which may be an exception;
  \<^item> \<open>articles\<close>: the documents of the article index;
  \<^item> \<open>search_error\<close>: the exception, if any, that the search for a topic raises;
  \<^item> \<open>multi_match\<close>: the store's relevance test of a topic against a title and a summary;
  \<^item> \<open>date_value\<close>: the instant, in seconds, that the store reads from a date string;
  \<^item> \<open>now\<close>: the clock, in seconds;
  \<^item> \<open>generate_html_report\<close>: the reporter, which raises or gives the path of the report.
\<close>

record agent_env =
  users_index_exists :: "exn + bool"
  users_hits :: "exn + user list"
  articles :: "article_doc list"
  search_error :: "string \<Rightarrow> exn option"
  multi_match :: "string \<Rightarrow> string \<Rightarrow> string option \<Rightarrow> bool"
  date_value :: "string \<Rightarrow> int option"
  now :: int
  generate_html_report :: "risk_record list \<Rightarrow> exn + string"

text \<open>
  What the store does with the query of \<^verbatim>\<open>analyze_topic_risk\<close>: a document matches when it
  is relevant to the topic in its title or summary, its publication date is not older
  than 24 hours, and its sentiment is the term \<^verbatim>\<open>negative\<close>; the matches are sorted by date,
  newest first, and the first five are returned.
\<close>

definition published_at :: "agent_env \<Rightarrow> article_doc \<Rightarrow> int option" where
  "published_at e d = (case doc_published_date d of None \<Rightarrow> None | Some p \<Rightarrow> date_value e p)"

definition query_matches :: "agent_env \<Rightarrow> string \<Rightarrow> article_doc \<Rightarrow> bool" where
  "query_matches e topic d =
     (multi_match e topic (doc_title d) (doc_summary d)
      \<and> (case published_at e d of None \<Rightarrow> False | Some t \<Rightarrow> t \<ge> now e - 24 * 3600)
      \<and> doc_sentiment_overall d = ''negative'')"

definition source_of :: "article_doc \<Rightarrow> hit_source" where
  "source_of d =
     \<lparr>hit_title = doc_title d, hit_url = doc_url d, hit_source_name = doc_source_name d,
      hit_published_date = doc_published_date d, hit_summary = doc_summary d\<rparr>"

definition es_search :: "agent_env \<Rightarrow> string \<Rightarrow> exn + hit_source list" where
  "es_search e topic =
     (case search_error e topic of
        Some ex \<Rightarrow> Inl ex
      | None \<Rightarrow>
          Inr (map source_of
                 (take 5 (sort_key (\<lambda>d. - the (published_at e d))
                            (filter (query_matches e topic) (articles e))))))"

definition risk_of_hits :: "string \<Rightarrow> hit_source list \<Rightarrow> risk_record" where
  "risk_of_hits topic hits =
     (let articles_data = hits;
          top_summary =
            (case articles_data of
               [] \<Rightarrow> ''No summary available.''
             | a # _ \<Rightarrow>
                 (case hit_summary a of
                    None \<Rightarrow> ''No summary available.''
                  | Some sm \<Rightarrow> if sm = [] then ''No summary available.'' else sm))
      in \<lparr>risk_topic = topic, is_critical = (length hits > 0), article_count = length hits,
          articles_data = articles_data, top_summary = top_summary,
          ai_assessment = None, users_affected = None\<rparr>)"

definition analyze_topic_risk ::
  "agent_env \<Rightarrow> string \<Rightarrow> agent_call list \<Rightarrow> agent_call list \<times> (exn + risk_record)" where
  "analyze_topic_risk e topic tr =
     (tr @ [SearchArticles topic],
      case es_search e topic of
        Inl ex \<Rightarrow> Inl ex
      | Inr hits \<Rightarrow> Inr (risk_of_hits topic hits))"

text \<open>
  \<^verbatim>\<open>topic_map\<close> is a dictionary, which keeps its keys in the order of their insertion: an
  association list with distinct keys.
\<close>

definition topic_map_add ::
  "string \<Rightarrow> string \<Rightarrow> (string \<times> string list) list \<Rightarrow> (string \<times> string list) list" where
  "topic_map_add clean_topic email topic_map =
     (let m = (if clean_topic \<notin> set (map fst topic_map) then topic_map @ [(clean_topic, [])]
               else topic_map)
      in map (\<lambda>(k, v). if k = clean_topic then (k, v @ [email]) else (k, v)) m)"

definition map_topics :: "user list \<Rightarrow> (string \<times> string list) list" where
  "map_topics users =
     foldl (\<lambda>m u. foldl (\<lambda>m' topic. topic_map_add (py_strip topic) (user_email u) m') m
                     (user_watchlist u))
       [] users"

text \<open>The loop over the topics; an exception of the search leaves the loop and the patrol.\<close>

fun analyze_risks ::
  "agent_env \<Rightarrow> (string \<times> string list) list \<Rightarrow> risk_record list \<Rightarrow> agent_call list
     \<Rightarrow> agent_call list \<times> (exn + risk_record list)" where
  "analyze_risks e [] risk_list tr = (tr, Inr risk_list)"
| "analyze_risks e ((topic, emails) # rest) risk_list tr =
     (case analyze_topic_risk e topic tr of
        (tr', Inl ex) \<Rightarrow> (tr', Inl ex)
      | (tr', Inr risk_data) \<Rightarrow>
          if is_critical risk_data
          then analyze_risks e rest
                 (risk_list @ [risk_data\<lparr>ai_assessment := Some (top_summary risk_data),
                                          users_affected := Some emails\<rparr>]) tr'
          else analyze_risks e rest risk_list tr')"

definition generate_alert_batch ::
  "agent_env \<Rightarrow> risk_record list \<Rightarrow> agent_call list \<Rightarrow> agent_call list \<times> exn option" where
  "generate_alert_batch e risk_list tr =
     (case generate_html_report e risk_list of
        Inl ex \<Rightarrow> (tr @ [GenerateHtmlReport risk_list], Some ex)
      | Inr report_path \<Rightarrow>
          (tr @ [GenerateHtmlReport risk_list, WebbrowserOpen (''file://'' @ report_path)], None))"

text \<open>\<^verbatim>\<open>run_patrol\<close>; the second component is the exception that leaves it, if any.\<close>

definition run_patrol :: "agent_env \<Rightarrow> agent_call list \<Rightarrow> agent_call list \<times> exn option" where
  "run_patrol e tr =
     (let tr1 = tr @ [IndicesExists]
      in case users_index_exists e of
           Inl ex \<Rightarrow> (tr1, None)
         | Inr False \<Rightarrow> (tr1, None)
         | Inr True \<Rightarrow>
             (let tr2 = tr1 @ [SearchUsers]
              in case users_hits e of
                   Inl ex \<Rightarrow> (tr2, None)
                 | Inr users \<Rightarrow>
                     (let topic_map = map_topics users
                      in if topic_map = [] then (tr2, None)
                         else
                           (case analyze_risks e topic_map [] tr2 of
                              (tr3, Inl ex) \<Rightarrow> (tr3, Some ex)
                            | (tr3, Inr risk_list) \<Rightarrow>
                                if risk_list \<noteq> [] then generate_alert_batch e risk_list tr3
                                else (tr3, None)))))"

text \<open>The calls of the reporter in a trace, with the list each one was given.\<close>

definition report_calls :: "agent_call list \<Rightarrow> risk_record list list" where
  "report_calls tr =
     List.map_filter (\<lambda>c. case c of GenerateHtmlReport rl \<Rightarrow> Some rl | _ \<Rightarrow> None) tr"

text \<open>
  The critical records of a scan cycle in which every search answers: for each topic of
  the map, in its order, the record of the topic when it is critical, with the assessment
  and the subscribers added.
\<close>

definition critical_records ::
  "agent_env \<Rightarrow> (string \<times> string list) list \<Rightarrow> risk_record list" where
  "critical_records e topic_map =
     List.map_filter
       (\<lambda>(topic, emails).
          case es_search e topic of
            Inl ex \<Rightarrow> None
          | Inr hits \<Rightarrow>
              let r = risk_of_hits topic hits
              in if is_critical r
                 then Some (r\<lparr>ai_assessment := Some (top_summary r), users_affected := Some emails\<rparr>)
                 else None)
       topic_map"

section \<open>Example environments\<close>

text \<open>
  Concrete environments for the examples below. In \<open>example_env status body\<close> the store
  answers, every page comes back with the given status and body text, no title is found
  in the page, newspaper3k fails, every analyzer answers, and both Pydantic validations
  accept.
\<close>

definition example_env :: "nat \<Rightarrow> string \<Rightarrow> env" where
  "example_env status body =
     \<lparr>es_reachable = True,
      session_get = (\<lambda>url. Inr \<lparr>status_code = status, response_text = ''<html>''\<rparr>),
      trafilatura_extract = (\<lambda>html. Inr (Some body)),
      trafilatura_meta_title = (\<lambda>html. None),
      soup_titles = (\<lambda>html. None),
      newspaper = (\<lambda>url. Inl NetworkError),
      detect_language = (\<lambda>text. Inr ''en''),
      translate_to_english = (\<lambda>text. Inr text),
      summarize = (\<lambda>text. Inr ''A summary.''),
      entity_extractor = (\<lambda>text. Inr []),
      classify_bias = (\<lambda>text. Inr (''left'', 0.7)),
      classify_sentiment = (\<lambda>text. Inr (''negative'', 0.9)),
      parse_date = (\<lambda>p. None),
      entity_sentiment_ok = (\<lambda>entity. True),
      article_doc_ok = (\<lambda>doc. True),
      INDEX_NAME = ''news_articles''\<rparr>"

text \<open>The same with newspaper3k answering with the given text.\<close>

definition example_env_newspaper :: "nat \<Rightarrow> string \<Rightarrow> string \<Rightarrow> env" where
  "example_env_newspaper status body art_body =
     (example_env status body)
       \<lparr>newspaper := (\<lambda>url. Inr \<lparr>art_text = art_body, art_title = [], art_publish_date = None\<rparr>)\<rparr>"

definition empty_world :: world where
  "empty_world = \<lparr>store = Map.empty, calls = []\<rparr>"

text \<open>The feed item of the specification's end-to-end example.\<close>

definition example_entry :: feed_entry where
  "example_entry =
     \<lparr>entry_title = ''Breaking: X raises funds'', entry_link = Some ''http://a.test/1'',
      entry_published = None, entry_source = ''A Test Feed'', entry_description = []\<rparr>"

text \<open>
  A stored article for the examples of the agent: only the title, the sentiment and the
  date vary.
\<close>

definition example_article :: "string \<Rightarrow> string \<Rightarrow> string \<Rightarrow> article_doc" where
  "example_article t sentiment date =
     \<lparr>doc_title = t, doc_url = ''http://a.test/1'', doc_source_name = ''A Test Feed'',
      doc_published_date = Some date, doc_language = ''en'', doc_original_text = t,
      doc_translated_text = None, doc_summary = Some ''A summary.'',
      doc_bias_overall = ''neutral'', doc_bias_score = 0,
      doc_sentiment_overall = sentiment, doc_sentiment_score = 0.9,
      doc_entities = []\<rparr>"

definition example_users :: "user list" where
  "example_users =
     [\<lparr>user_email = ''alice@a.test'', user_watchlist = [''Bitcoin'', '' Adani '']\<rparr>,
      \<lparr>user_email = ''bob@a.test'', user_watchlist = [''Bitcoin'', ''SpaceX'']\<rparr>]"

text \<open>
  In \<open>example_agent_env docs\<close> the store answers, the subscribers are the two above, the
  index holds \<open>docs\<close>, a topic is relevant to a document when the title contains it, the
  dates \<^verbatim>\<open>today\<close> and \<^verbatim>\<open>last week\<close> lie one hour and seven days before the clock, and the
  reporter writes \<^verbatim>\<open>/tmp/report.html\<close>.
\<close>

definition example_agent_env :: "article_doc list \<Rightarrow> agent_env" where
  "example_agent_env docs =
     \<lparr>users_index_exists = Inr True,
      users_hits = Inr example_users,
      articles = docs,
      search_error = (\<lambda>topic. None),
      multi_match = (\<lambda>topic t summary. py_in topic t),
      date_value = (\<lambda>d. if d = ''today'' then Some 996400
                         else if d = ''last week'' then Some 395200 else None),
      now = 1000000,
      generate_html_report = (\<lambda>risk_list. Inr ''/tmp/report.html'')\<rparr>"

definition example_articles :: "article_doc list" where
  "example_articles =
     [example_article ''Bitcoin falls again'' ''negative'' ''today'',
      example_article ''Adani shares slide'' ''negative'' ''today'',
      example_article ''SpaceX launch succeeds'' ''positive'' ''today'',
      example_article ''SpaceX rocket lost'' ''negative'' ''last week'']"

text \<open>
  Inputs of the title logic: a feed item with the given title and an extracted article
  with the given title.
\<close>

definition titled_entry :: "string \<Rightarrow> feed_entry" where
  "titled_entry t = example_entry\<lparr>entry_title := t\<rparr>"

definition titled_raw :: "string option \<Rightarrow> raw_article" where
  "titled_raw t =
     \<lparr>raw_title = t, raw_text = [], raw_method = ''trafilatura'', raw_publish_date = None\<rparr>"

definition example_text :: string where
  "example_text =
     ''Shares of the company rose sharply on Monday. Analysts had expected a decline.''"

text \<open>A raw entity with the given name, type and sentiment, no bias and no score.\<close>

definition named_entity :: "string option \<Rightarrow> string \<Rightarrow> string \<Rightarrow> raw_entity" where
  "named_entity n t s =
     \<lparr>raw_name = n, raw_type = Some t, raw_sentiment = Some s, raw_bias = None,
      raw_score = ScoreNone\<rparr>"

definition example_entities :: "raw_entity list" where
  "example_entities =
     [named_entity (Some ''Apple'') ''ORG'' ''Positive'',
      named_entity (Some ''apple'') ''PRODUCT'' ''negative'',
      named_entity None ''ORG'' ''neutral'',
      named_entity (Some []) ''ORG'' ''neutral'',
      named_entity (Some ''2024'') ''DATE'' ''neutral'',
      named_entity (Some ''?!'') ''MISC'' ''neutral'',
      named_entity (Some '' Bob '') ''PERSON'' ''happy'']"

text \<open>A body text of more than 100 characters, and a world whose store holds the example item.\<close>

definition example_body :: string where
  "example_body =
     ''Shares of the company rose sharply on Monday after the quarterly report. '' @
     ''Analysts had expected a decline in revenue this year.''"

definition stored_world :: world where
  "stored_world =
     \<lparr>store = [generate_id ''http://a.test/1''
                 \<mapsto> example_article ''Breaking: X raises funds'' ''neutral'' ''today''],
      calls = []\<rparr>"




section \<open>Facts about the string operations\<close>

lemma startswith_iff: "startswith s p \<longleftrightarrow> (\<exists>v. s = p @ v)"
  unfolding startswith_def
  by (metis append_eq_conv_conj append_take_drop_id)

lemma py_in_iff: "py_in sub s \<longleftrightarrow> (\<exists>u v. s = u @ sub @ v)"
proof (induction s)
  case Nil
  then show ?case by auto
next
  case (Cons c cs)
  show ?case
  proof
    assume "py_in sub (c # cs)"
    then consider "startswith (c # cs) sub" | "py_in sub cs" by auto
    then show "\<exists>u v. c # cs = u @ sub @ v"
    proof cases
      case 1
      then obtain v where "c # cs = sub @ v" by (auto simp: startswith_iff)
      then have "c # cs = [] @ sub @ v" by simp
      then show ?thesis by blast
    next
      case 2
      with Cons.IH obtain u v where "cs = u @ sub @ v" by blast
      then have "c # cs = (c # u) @ sub @ v" by simp
      then show ?thesis by blast
    qed
  next
    assume "\<exists>u v. c # cs = u @ sub @ v"
    then obtain u v where uv: "c # cs = u @ sub @ v" by blast
    show "py_in sub (c # cs)"
    proof (cases u)
      case Nil
      with uv have "startswith (c # cs) sub" by (auto simp: startswith_iff)
      then show ?thesis by simp
    next
      case (Cons a u')
      with uv have "cs = u' @ sub @ v" by simp
      with Cons.IH have "py_in sub cs" by blast
      then show ?thesis by simp
    qed
  qed
qed

lemma py_strip_Nil: "py_strip [] = []"
  by (simp add: py_strip_def py_lstrip_def py_rstrip_def)

section \<open>The title validity predicate\<close>

text \<open>
  Claim C8, as the code has it. \<^verbatim>\<open>is_valid_title\<close> accepts a title exactly when its
  trimmed length is at least 10 and its lower-cased, trimmed form contains none of the
  eight generic strings as a substring. Containing one is enough for a rejection; the
  title does not have to be equal to it.
\<close>

theorem is_valid_title_iff:
  "is_valid_title t \<longleftrightarrow>
     10 \<le> length (py_strip t) \<and>
     (\<forall>inv \<in> set invalid_titles. \<not> (\<exists>u v. py_strip (py_lower t) = u @ inv @ v))"
  by (auto simp: is_valid_title_def Let_def list_ex_iff py_in_iff py_strip_Nil)

theorem is_valid_title_iff_witness:
  "is_valid_title ''Breaking: X raises funds'' \<and>
   10 \<le> length (py_strip ''Breaking: X raises funds'') \<and>
   \<not> (\<exists>u v. py_strip (py_lower ''Breaking: X raises funds'') = u @ ''news'' @ v)"
proof -
  have "is_valid_title ''Breaking: X raises funds''" by code_simp
  moreover have "''news'' \<in> set invalid_titles" by (simp add: invalid_titles_def)
  ultimately show ?thesis
    using is_valid_title_iff [of "''Breaking: X raises funds''"] by blast
qed

text \<open>
  Claim C8 as stated fails: a title of 19 characters that is not one of the generic
  strings, before or after lower-casing and trimming, is rejected because it contains
  \<^verbatim>\<open>news\<close>.
\<close>

theorem is_valid_title_blacklist_counterexample:
  "10 \<le> length (py_strip ''Breaking news today'') \<and>
   ''Breaking news today'' \<notin> set invalid_titles \<and>
   py_strip (py_lower ''Breaking news today'') \<notin> set invalid_titles \<and>
   \<not> is_valid_title ''Breaking news today''"
  by code_simp

section \<open>Identifiers\<close>

lemma length_hexdigest: "length (hexdigest bs) = 2 * length bs"
  by (induction bs) (simp_all add: hexdigest_def hex_byte_def)

lemma length_md5_digest: "length (md5_digest msg) = 16"
  by (simp add: md5_digest_def bytes_of_u32_def split: prod.splits)

lemma hex_digit_mem: "hex_digit n \<in> set hex_chars"
proof -
  have "length hex_chars = 16" by (simp add: hex_chars_def)
  then have "n mod 16 < length hex_chars" by simp
  then show ?thesis unfolding hex_digit_def by (rule nth_mem)
qed

lemma set_hex_byte: "set (hex_byte b) \<subseteq> set hex_chars"
  using hex_digit_mem [of "unat b div 16"] hex_digit_mem [of "unat b mod 16"]
  by (simp add: hex_byte_def)

lemma set_hexdigest: "set (hexdigest bs) \<subseteq> set hex_chars"
  using set_hex_byte by (auto simp: hexdigest_def)

text \<open>The model agrees with \<^verbatim>\<open>hashlib\<close> on the URL of the specification's end-to-end example.\<close>

lemma generate_id_example:
  "generate_id ''http://a.test/1'' = ''9758a08f62aa66bb1ad66f56554b2dc5''"
  by code_simp

text \<open>
  Claim C7. \<^verbatim>\<open>generate_id\<close> is a function of the URL string alone: it reads no state, so
  every call on the same string gives the same value. For every URL that value has
  exactly 32 characters, each of them a lower-case hexadecimal digit.
\<close>

theorem generate_id_hex32:
  "length (generate_id u) = 32 \<and> set (generate_id u) \<subseteq> set hex_chars"
  by (simp add: generate_id_def length_hexdigest length_md5_digest set_hexdigest)

theorem generate_id_hex32_witness:
  "generate_id ''http://a.test/1'' = ''9758a08f62aa66bb1ad66f56554b2dc5'' \<and>
   length (generate_id ''http://a.test/1'') = 32 \<and>
   set (generate_id ''http://a.test/1'') \<subseteq> set hex_chars"
  using generate_id_hex32 [of "''http://a.test/1''"] generate_id_example by blast

section \<open>The extraction chain\<close>

lemma try_trafilatura_None_iff:
  assumes "session_get e url = Inr response"
    and "trafilatura_extract e (response_text response) = Inr (Some text)"
  shows "try_trafilatura e url = None \<longleftrightarrow>
           status_code response \<noteq> 200 \<or> length (py_strip text) \<le> 100"
  using assms by (auto simp: try_trafilatura_def Let_def py_strip_Nil)

lemma try_newspaper_None_iff:
  assumes "newspaper e url = Inr art"
  shows "try_newspaper e url = None \<longleftrightarrow> length (py_strip (art_text art)) \<le> 100"
  using assms by (auto simp: try_newspaper_def Let_def py_strip_Nil)

lemma snd_download_article:
  "snd (download_article e url w) =
     (case try_trafilatura e url of Some raw \<Rightarrow> Some raw | None \<Rightarrow> try_newspaper e url)"
  by (simp add: download_article_def Let_def split: option.splits)

lemma store_download_article: "store (fst (download_article e url w)) = store w"
  by (simp add: download_article_def Let_def log_call_def split: option.splits)

text \<open>
  Claim C9, as the code has it. For a page that was fetched and from which trafilatura
  extracted a text, the primary step fails exactly when the status is not 200 or the
  stripped text has at most 100 characters (the code asks for more than 100). newspaper3k
  works under the same bound. \<^verbatim>\<open>download_article\<close> returns \<^verbatim>\<open>None\<close> exactly when both steps
  fail, and a new item is then dropped: \<^verbatim>\<open>process_single_article\<close> returns \<^verbatim>\<open>None\<close>.
\<close>

theorem download_article_fallback:
  assumes "session_get e url = Inr response"
    and "trafilatura_extract e (response_text response) = Inr (Some text)"
    and "newspaper e url = Inr art"
  shows "(try_trafilatura e url = None \<longleftrightarrow>
            status_code response \<noteq> 200 \<or> length (py_strip text) \<le> 100) \<and>
         (try_newspaper e url = None \<longleftrightarrow> length (py_strip (art_text art)) \<le> 100) \<and>
         (snd (download_article e url w) = None \<longleftrightarrow>
            try_trafilatura e url = None \<and> try_newspaper e url = None) \<and>
         (es_reachable e \<and> entry_link entry = Some url \<and> generate_id url \<notin> dom (store w)
            \<and> snd (download_article e url w) = None
          \<longrightarrow> snd (process_single_article e entry w) = Inr None)"
proof -
  have d: "snd (download_article e url w') = snd (download_article e url w)" for w'
    by (simp add: snd_download_article)
  have "snd (process_single_article e entry w) = Inr None"
    if "es_reachable e" "entry_link entry = Some url" "generate_id url \<notin> dom (store w)"
      "snd (download_article e url w) = None"
  proof -
    let ?w1 = "log_call (EsExists (generate_id url)) (log_call EsPing w)"
    have "snd (download_article e url ?w1) = None" using that(4) d by simp
    then obtain w2 where "download_article e url ?w1 = (w2, None)"
      by (metis prod.collapse)
    moreover have "generate_id url \<notin> dom (store ?w1)"
      using that(3) by (simp add: log_call_def)
    ultimately show ?thesis
      using that(1,2) by (simp add: process_single_article_def Let_def)
  qed
  then show ?thesis
    using try_trafilatura_None_iff [OF assms(1,2)] try_newspaper_None_iff [OF assms(3)]
    by (auto simp: snd_download_article split: option.splits)
qed

theorem download_article_fallback_witness:
  "session_get (example_env_newspaper 404 (replicate 150 CHR ''a'') (replicate 40 CHR ''b''))
     ''http://a.test/1'' = Inr \<lparr>status_code = 404, response_text = ''<html>''\<rparr> \<and>
   try_trafilatura (example_env_newspaper 404 (replicate 150 CHR ''a'') (replicate 40 CHR ''b''))
     ''http://a.test/1'' = None \<and>
   try_newspaper (example_env_newspaper 404 (replicate 150 CHR ''a'') (replicate 40 CHR ''b''))
     ''http://a.test/1'' = None \<and>
   snd (download_article
          (example_env_newspaper 404 (replicate 150 CHR ''a'') (replicate 40 CHR ''b''))
          ''http://a.test/1'' empty_world) = None \<and>
   snd (process_single_article
          (example_env_newspaper 404 (replicate 150 CHR ''a'') (replicate 40 CHR ''b''))
          example_entry empty_world) = Inr None"
proof -
  let ?e = "example_env_newspaper 404 (replicate 150 CHR ''a'') (replicate 40 CHR ''b'')"
  let ?r = "\<lparr>status_code = 404, response_text = ''<html>''\<rparr>"
  let ?a = "\<lparr>art_text = replicate 40 CHR ''b'', art_title = [], art_publish_date = None\<rparr>"
  have h1: "session_get ?e ''http://a.test/1'' = Inr ?r"
    by (simp add: example_env_newspaper_def example_env_def)
  have h2: "trafilatura_extract ?e (response_text ?r) = Inr (Some (replicate 150 CHR ''a''))"
    by (simp add: example_env_newspaper_def example_env_def)
  have h3: "newspaper ?e ''http://a.test/1'' = Inr ?a"
    by (simp add: example_env_newspaper_def example_env_def)
  have h4: "try_trafilatura ?e ''http://a.test/1'' = None" by code_simp
  have h5: "try_newspaper ?e ''http://a.test/1'' = None" by code_simp
  have h6: "es_reachable ?e \<and> entry_link example_entry = Some ''http://a.test/1'' \<and>
            generate_id ''http://a.test/1'' \<notin> dom (store empty_world)"
    by (simp add: example_env_newspaper_def example_env_def example_entry_def empty_world_def)
  show ?thesis
    using download_article_fallback [OF h1 h2 h3, of empty_world example_entry] h1 h4 h5 h6
    by blast
qed

text \<open>
  Claim C9 as stated fails at the bound: a page with status 200 whose extracted text has
  exactly 100 characters is not below the threshold of 100, and still the primary step
  fails.
\<close>

theorem primary_threshold_counterexample:
  "session_get (example_env 200 (replicate 100 CHR ''a'')) ''http://a.test/1''
     = Inr \<lparr>status_code = 200, response_text = ''<html>''\<rparr> \<and>
   trafilatura_extract (example_env 200 (replicate 100 CHR ''a'')) ''<html>''
     = Inr (Some (replicate 100 CHR ''a'')) \<and>
   \<not> length (py_strip (replicate 100 CHR ''a'')) < 100 \<and>
   try_trafilatura (example_env 200 (replicate 100 CHR ''a'')) ''http://a.test/1'' = None"
  by code_simp

section \<open>The risk scan and the alert batch\<close>

lemma risk_of_hits_fields:
  "is_critical (risk_of_hits topic hits) = (hits \<noteq> [])"
  "article_count (risk_of_hits topic hits) = length hits"
  by (simp_all add: risk_of_hits_def Let_def)

text \<open>
  Claim C3. When the search for the topic answers, the risk record is critical exactly
  when some document of the index matches the query (relevant to the topic, published
  within the last 24 hours, sentiment \<^verbatim>\<open>negative\<close>), and its \<^verbatim>\<open>article_count\<close> is the number of
  matching documents capped at five, the number of hits returned. No match gives a record
  that is not critical with count 0, exactly one match a critical record with count 1.
\<close>

theorem analyze_topic_risk_critical:
  assumes "search_error e topic = None"
  shows "\<exists>r. analyze_topic_risk e topic tr = (tr @ [SearchArticles topic], Inr r) \<and>
           (is_critical r \<longleftrightarrow> (\<exists>d \<in> set (articles e). query_matches e topic d)) \<and>
           article_count r = min 5 (length (filter (query_matches e topic) (articles e))) \<and>
           (filter (query_matches e topic) (articles e) = []
              \<longrightarrow> \<not> is_critical r \<and> article_count r = 0) \<and>
           (length (filter (query_matches e topic) (articles e)) = 1
              \<longrightarrow> is_critical r \<and> article_count r = 1)"
proof -
  define m where "m = filter (query_matches e topic) (articles e)"
  define hits where "hits = map source_of (take 5 (sort_key (\<lambda>d. - the (published_at e d)) m))"
  define r where "r = risk_of_hits topic hits"
  have a: "analyze_topic_risk e topic tr = (tr @ [SearchArticles topic], Inr r)"
    using assms by (simp add: analyze_topic_risk_def es_search_def r_def hits_def m_def)
  have l: "length hits = min 5 (length m)"
    by (simp add: hits_def)
  have n: "article_count r = min 5 (length m)"
    by (simp add: r_def risk_of_hits_fields l)
  have c: "is_critical r \<longleftrightarrow> m \<noteq> []"
    using l by (cases m) (auto simp: r_def risk_of_hits_fields)
  have q: "m \<noteq> [] \<longleftrightarrow> (\<exists>d \<in> set (articles e). query_matches e topic d)"
    by (simp add: m_def filter_empty_conv)
  have z: "m = [] \<longrightarrow> \<not> is_critical r \<and> article_count r = 0"
    using c n by simp
  have o: "length m = 1 \<longrightarrow> is_critical r \<and> article_count r = 1"
    using c n by auto
  show ?thesis using a n c q z o unfolding m_def by blast
qed


theorem analyze_topic_risk_critical_witness:
  "(\<exists>r. analyze_topic_risk (example_agent_env example_articles) ''Bitcoin'' [] =
          ([SearchArticles ''Bitcoin''], Inr r) \<and> is_critical r \<and> article_count r = 1) \<and>
   (\<exists>r. analyze_topic_risk (example_agent_env example_articles) ''SpaceX'' [] =
          ([SearchArticles ''SpaceX''], Inr r) \<and> \<not> is_critical r \<and> article_count r = 0)"
proof -
  let ?e = "example_agent_env example_articles"
  have s: "search_error ?e topic = None" for topic by (simp add: example_agent_env_def)
  have one: "length (filter (query_matches ?e ''Bitcoin'') (articles ?e)) = 1" by code_simp
  have zero: "filter (query_matches ?e ''SpaceX'') (articles ?e) = []" by code_simp
  show ?thesis
    using analyze_topic_risk_critical [OF s, of "''Bitcoin''" "[]"]
      analyze_topic_risk_critical [OF s, of "''SpaceX''" "[]"] one zero
    by auto
qed

lemma report_calls_append: "report_calls (xs @ ys) = report_calls xs @ report_calls ys"
  by (simp add: report_calls_def List.map_filter_def)

lemma report_calls_simps:
  "report_calls [] = []"
  "report_calls (SearchArticles t # cs) = report_calls cs"
  "report_calls (IndicesExists # cs) = report_calls cs"
  "report_calls (SearchUsers # cs) = report_calls cs"
  "report_calls (WebbrowserOpen p # cs) = report_calls cs"
  "report_calls (GenerateHtmlReport rl # cs) = rl # report_calls cs"
  by (simp_all add: report_calls_def List.map_filter_def)

lemma analyze_risks_report_calls:
  "report_calls (fst (analyze_risks e tm rl tr)) = report_calls tr"
proof (induction tm arbitrary: rl tr)
  case Nil
  then show ?case by simp
next
  case (Cons p tm)
  obtain topic emails where p: "p = (topic, emails)" by (cases p)
  show ?case
    by (simp add: p analyze_topic_risk_def Cons.IH report_calls_append report_calls_simps
        split: sum.splits)
qed

lemma critical_records_Nil: "critical_records e [] = []"
  by (simp add: critical_records_def List.map_filter_def)

lemma critical_records_Cons:
  assumes "es_search e topic = Inr hits"
  shows "critical_records e ((topic, emails) # tm) =
      (if is_critical (risk_of_hits topic hits)
       then [(risk_of_hits topic hits)\<lparr>ai_assessment := Some (top_summary (risk_of_hits topic hits)),
                                     users_affected := Some emails\<rparr>]
       else []) @ critical_records e tm"
  using assms by (simp add: critical_records_def List.map_filter_def Let_def)

lemma analyze_risks_ok:
  assumes "\<forall>topic \<in> set (map fst tm). search_error e topic = None"
  shows "analyze_risks e tm rl tr =
           (tr @ map SearchArticles (map fst tm), Inr (rl @ critical_records e tm))"
  using assms
proof (induction tm arbitrary: rl tr)
  case Nil
  then show ?case by (simp add: critical_records_Nil)
next
  case (Cons p tm)
  obtain topic emails where p: "p = (topic, emails)" by (cases p)
  from Cons.prems p have s: "search_error e topic = None"
    and r: "\<forall>topic \<in> set (map fst tm). search_error e topic = None" by auto
  from s obtain hits where h: "es_search e topic = Inr hits"
    by (simp add: es_search_def)
  show ?case
    by (simp add: p analyze_topic_risk_def h Cons.IH [OF r] critical_records_Cons [OF h])
qed

lemma report_calls_searches: "report_calls (map (SearchArticles \<circ> f) xs) = []"
  by (induction xs) (simp_all add: report_calls_simps)

lemma generate_alert_batch_report_calls:
  "report_calls (fst (generate_alert_batch e rl tr)) = report_calls tr @ [rl]"
  by (simp add: generate_alert_batch_def report_calls_append report_calls_simps split: sum.splits)

text \<open>
  Claim C1. A patrol never calls the reporter more than once. When the subscribers are
  read and every search answers, it calls the reporter exactly once, with the whole list
  of the critical records of the cycle, if that list is not empty, however many records
  it holds; and it does not call it at all if no topic is critical.
\<close>

theorem run_patrol_one_report:
  "length (report_calls (fst (run_patrol e []))) \<le> 1 \<and>
   (users_index_exists e = Inr True \<and> users_hits e = Inr users \<and>
    (\<forall>topic \<in> set (map fst (map_topics users)). search_error e topic = None)
    \<longrightarrow> report_calls (fst (run_patrol e [])) =
          (if critical_records e (map_topics users) = [] then []
           else [critical_records e (map_topics users)]))"
proof -
  have 1: "length (report_calls (fst (run_patrol e []))) \<le> 1"
  proof -
    have r: "report_calls x1 = []"
      if "analyze_risks e tm [] [IndicesExists, SearchUsers] = (x1, res)" for tm x1 res
      using analyze_risks_report_calls [of e tm "[]" "[IndicesExists, SearchUsers]"] that
      by (simp add: report_calls_simps)
    show ?thesis
      by (auto simp: r run_patrol_def Let_def report_calls_simps generate_alert_batch_report_calls
          split: sum.splits bool.splits prod.splits)
  qed
  have 2: "report_calls (fst (run_patrol e [])) =
          (if critical_records e (map_topics users) = [] then []
           else [critical_records e (map_topics users)])"
    if u: "users_index_exists e = Inr True" "users_hits e = Inr users"
      and s: "\<forall>topic \<in> set (map fst (map_topics users)). search_error e topic = None"
  proof (cases "map_topics users = []")
    case True
    then show ?thesis
      using u by (simp add: run_patrol_def Let_def report_calls_simps critical_records_Nil)
  next
    case False
    then show ?thesis
      using u
      by (simp add: run_patrol_def Let_def analyze_risks_ok [OF s] report_calls_simps
          report_calls_append generate_alert_batch_report_calls report_calls_searches)
  qed
  from 1 2 show ?thesis by blast
qed




theorem run_patrol_one_report_witness:
  "length (critical_records (example_agent_env example_articles) (map_topics example_users)) = 2 \<and>
   report_calls (fst (run_patrol (example_agent_env example_articles) [])) =
     [critical_records (example_agent_env example_articles) (map_topics example_users)] \<and>
   report_calls
     (fst (run_patrol (example_agent_env [example_article ''SpaceX launch succeeds'' ''positive'' ''today'']) [])) = []"
proof -
  let ?e = "example_agent_env example_articles"
  let ?f = "example_agent_env [example_article ''SpaceX launch succeeds'' ''positive'' ''today'']"
  have h: "users_index_exists (example_agent_env docs) = Inr True \<and>
        users_hits (example_agent_env docs) = Inr example_users \<and>
        (\<forall>topic \<in> set (map fst (map_topics example_users)).
           search_error (example_agent_env docs) topic = None)" for docs
    by (simp add: example_agent_env_def)
  have two: "length (critical_records ?e (map_topics example_users)) = 2" by code_simp
  have none: "critical_records ?f (map_topics example_users) = []" by code_simp
  from two have ne: "critical_records ?e (map_topics example_users) \<noteq> []" by auto
  show ?thesis
    using run_patrol_one_report [of ?e example_users]
      run_patrol_one_report [of ?f example_users] h two none ne
    by simp
qed

section \<open>The title chain\<close>

lemma is_valid_title_nonempty: "is_valid_title t \<Longrightarrow> t \<noteq> []"
  by (auto simp: is_valid_title_def)

lemma title_from_sentences_valid:
  "title_from_sentences ss = Some c \<Longrightarrow> is_valid_title c"
  by (induction ss) (auto simp: Let_def split: if_splits)

lemma extract_title_from_content_valid:
  "extract_title_from_content text = Some c \<Longrightarrow> is_valid_title c"
  by (auto simp: extract_title_from_content_def title_from_sentences_valid split: if_splits)

text \<open>
  Claim C5, as the code has it. The five positions are tried in this order, and a position
  is reached only when no earlier candidate passes the validity predicate. A feed title
  or an extractor title that passes it is cleaned (the trailing site name is stripped,
  the length is bounded), and the cleaned form is the final title whenever it passes the
  predicate too, whatever the later positions hold. A title mined from the body or
  synthesized from the URL is taken as it is, and the generic label of the source domain
  is the last resort.
\<close>

theorem title_chain_priority:
  "(is_valid_title (py_strip (entry_title entry))
      \<and> is_valid_title (clean_title (py_strip (entry_title entry)))
    \<longrightarrow> title_logic entry raw text url = clean_title (py_strip (entry_title entry))) \<and>
   (\<not> is_valid_title (py_strip (entry_title entry)) \<and> raw_title raw = Some c2
      \<and> is_valid_title c2 \<and> is_valid_title (clean_title c2)
    \<longrightarrow> title_logic entry raw text url = clean_title c2) \<and>
   (\<not> is_valid_title (py_strip (entry_title entry))
      \<and> (\<forall>t. raw_title raw = Some t \<longrightarrow> \<not> is_valid_title t)
      \<and> extract_title_from_content text = Some c3
    \<longrightarrow> title_logic entry raw text url = c3) \<and>
   (\<not> is_valid_title (py_strip (entry_title entry))
      \<and> (\<forall>t. raw_title raw = Some t \<longrightarrow> \<not> is_valid_title t)
      \<and> extract_title_from_content text = None
      \<and> is_valid_title (extract_title_from_url url)
    \<longrightarrow> title_logic entry raw text url = extract_title_from_url url) \<and>
   (\<not> is_valid_title (py_strip (entry_title entry))
      \<and> (\<forall>t. raw_title raw = Some t \<longrightarrow> \<not> is_valid_title t)
      \<and> extract_title_from_content text = None
      \<and> \<not> is_valid_title (extract_title_from_url url)
    \<longrightarrow> title_logic entry raw text url = source_label url)"
proof -
  let ?c1 = "py_strip (entry_title entry)"
  have p1: "title_logic entry raw text url = clean_title ?c1"
    if "is_valid_title ?c1" "is_valid_title (clean_title ?c1)"
    using that is_valid_title_nonempty [OF that(1)] is_valid_title_nonempty [OF that(2)]
    by (simp add: title_logic_def Let_def falsy_def)
  have p2: "title_logic entry raw text url = clean_title c2"
    if "\<not> is_valid_title ?c1" "raw_title raw = Some c2" "is_valid_title c2"
      "is_valid_title (clean_title c2)"
    using that is_valid_title_nonempty [OF that(3)] is_valid_title_nonempty [OF that(4)]
    by (simp add: title_logic_def Let_def falsy_def)
  have f2: "(case raw_title raw of None \<Rightarrow> None
             | Some extracted \<Rightarrow> if extracted \<noteq> [] \<and> is_valid_title extracted
                                 then Some (clean_title extracted) else None) = None"
    if "\<forall>t. raw_title raw = Some t \<longrightarrow> \<not> is_valid_title t"
    using that by (simp split: option.splits)
  have p3: "title_logic entry raw text url = c3"
    if "\<not> is_valid_title ?c1" "\<forall>t. raw_title raw = Some t \<longrightarrow> \<not> is_valid_title t"
      "extract_title_from_content text = Some c3"
    using that(1,3) f2 [OF that(2)] extract_title_from_content_valid [OF that(3)]
      is_valid_title_nonempty [OF extract_title_from_content_valid [OF that(3)]]
    by (simp add: title_logic_def Let_def falsy_def)
  have p4: "title_logic entry raw text url = extract_title_from_url url"
    if "\<not> is_valid_title ?c1" "\<forall>t. raw_title raw = Some t \<longrightarrow> \<not> is_valid_title t"
      "extract_title_from_content text = None" "is_valid_title (extract_title_from_url url)"
    using that(1,3,4) f2 [OF that(2)] is_valid_title_nonempty [OF that(4)]
    by (simp add: title_logic_def Let_def falsy_def)
  have p5: "title_logic entry raw text url = source_label url"
    if "\<not> is_valid_title ?c1" "\<forall>t. raw_title raw = Some t \<longrightarrow> \<not> is_valid_title t"
      "extract_title_from_content text = None" "\<not> is_valid_title (extract_title_from_url url)"
    using that(1,3,4) f2 [OF that(2)]
    by (simp add: title_logic_def Let_def falsy_def)
  from p1 p2 p3 p4 p5 show ?thesis by blast
qed


theorem title_chain_priority_witness:
  "title_logic (titled_entry ''Breaking: X raises funds'')
     (titled_raw (Some ''Quarterly results beat expectations'')) example_text
     ''http://a.test/markets/shares-rise-sharply'' = ''Breaking: X raises funds'' \<and>
   title_logic (titled_entry ''Untitled'')
     (titled_raw (Some ''Quarterly results beat expectations - A Site'')) example_text
     ''http://a.test/markets/shares-rise-sharply'' = ''Quarterly results beat expectations'' \<and>
   title_logic (titled_entry ''Untitled'') (titled_raw None) example_text
     ''http://a.test/markets/shares-rise-sharply''
     = ''Shares of the company rose sharply on Monday'' \<and>
   title_logic (titled_entry ''Untitled'') (titled_raw None) ''short''
     ''http://a.test/markets/shares-rise-sharply'' = ''Shares Rise Sharply'' \<and>
   title_logic (titled_entry ''Untitled'') (titled_raw None) ''short'' ''http://a.test/1''
     = ''Article from a.test''"
proof -
  let ?u = "''http://a.test/markets/shares-rise-sharply''"
  let ?b = "titled_entry ''Breaking: X raises funds''"
  let ?n = "titled_entry ''Untitled''"
  let ?q = "''Quarterly results beat expectations - A Site''"
  have v1: "is_valid_title (py_strip (entry_title ?b))"
    and v1': "is_valid_title (clean_title (py_strip (entry_title ?b)))"
    and e1: "clean_title (py_strip (entry_title ?b)) = ''Breaking: X raises funds''"
    by code_simp+
  have n1: "\<not> is_valid_title (py_strip (entry_title ?n))"
    by code_simp
  have r2: "raw_title (titled_raw (Some ?q)) = Some ?q"
    by (simp add: titled_raw_def)
  have v2: "is_valid_title ?q" and v2': "is_valid_title (clean_title ?q)"
    and e2: "clean_title ?q = ''Quarterly results beat expectations''"
    by code_simp+
  have n2: "\<forall>t. raw_title (titled_raw None) = Some t \<longrightarrow> \<not> is_valid_title t"
    by (simp add: titled_raw_def)
  have v3: "extract_title_from_content example_text
      = Some ''Shares of the company rose sharply on Monday''"
    by code_simp
  have n3: "extract_title_from_content ''short'' = None"
    by code_simp
  have v4: "is_valid_title (extract_title_from_url ?u)"
    and e4: "extract_title_from_url ?u = ''Shares Rise Sharply''"
    by code_simp+
  have n4: "\<not> is_valid_title (extract_title_from_url ''http://a.test/1'')"
    and e5: "source_label ''http://a.test/1'' = ''Article from a.test''"
    by code_simp+
  have "title_logic ?b (titled_raw (Some ''Quarterly results beat expectations'')) example_text ?u
          = clean_title (py_strip (entry_title ?b))"
    using title_chain_priority [of ?b "titled_raw (Some ''Quarterly results beat expectations'')"
        example_text ?u "[]" "[]"] v1 v1'
    by blast
  then have c1: "title_logic ?b (titled_raw (Some ''Quarterly results beat expectations''))
      example_text ?u = ''Breaking: X raises funds''"
    using e1 by (rule trans)
  have "title_logic ?n (titled_raw (Some ?q)) example_text ?u = clean_title ?q"
    using title_chain_priority [of ?n "titled_raw (Some ?q)" example_text ?u ?q "[]"] n1 r2 v2 v2'
    by blast
  then have c2: "title_logic ?n (titled_raw (Some ?q)) example_text ?u
      = ''Quarterly results beat expectations''"
    using e2 by (rule trans)
  have c3: "title_logic ?n (titled_raw None) example_text ?u
      = ''Shares of the company rose sharply on Monday''"
    using title_chain_priority [of ?n "titled_raw None" example_text ?u "[]"
        "''Shares of the company rose sharply on Monday''"] n1 n2 v3
    by blast
  have "title_logic ?n (titled_raw None) ''short'' ?u = extract_title_from_url ?u"
    using title_chain_priority [of ?n "titled_raw None" "''short''" ?u "[]" "[]"] n1 n2 n3 v4
    by blast
  then have c4: "title_logic ?n (titled_raw None) ''short'' ?u = ''Shares Rise Sharply''"
    using e4 by (rule trans)
  have "title_logic ?n (titled_raw None) ''short'' ''http://a.test/1''
          = source_label ''http://a.test/1''"
    using title_chain_priority [of ?n "titled_raw None" "''short''" "''http://a.test/1''" "[]" "[]"]
      n1 n2 n3 n4
    by blast
  then have c5: "title_logic ?n (titled_raw None) ''short'' ''http://a.test/1''
      = ''Article from a.test''"
    using e5 by (rule trans)
  from c1 c2 c3 c4 c5 show ?thesis by (intro conjI)
qed

text \<open>
  Claim C5 as stated fails. The feed title below passes the validity predicate, but its
  cleaned form \<^verbatim>\<open>Hi\<close> does not; the closing check then puts the generic label in its
  place, although the extractor's title is valid: the final title is neither the earliest
  valid candidate nor its cleaned form.
\<close>

theorem title_chain_counterexample:
  "is_valid_title (py_strip (entry_title (titled_entry ''Hi - Some Long Site Name''))) \<and>
   is_valid_title ''Quarterly results beat expectations'' \<and>
   is_valid_title (clean_title ''Quarterly results beat expectations'') \<and>
   title_logic (titled_entry ''Hi - Some Long Site Name'')
     (titled_raw (Some ''Quarterly results beat expectations'')) example_text ''http://a.test/1''
     = ''Article from a.test'' \<and>
   ''Article from a.test'' \<noteq> ''Hi - Some Long Site Name'' \<and>
   ''Article from a.test'' \<noteq> clean_title ''Hi - Some Long Site Name''"
  by code_simp

section \<open>Entity post-processing\<close>

lemma of_char_lt_256: "(of_char c :: nat) < 256"
  by (cases c) simp 

lemma lower_char_not_upper: "\<not> is_upper_char (lower_char c)"
proof (cases "is_upper_char c")
  case False
  then show ?thesis by (simp add: lower_char_def)
next
  case True
  let ?n = "of_char c :: nat"
  have b: "(65 \<le> ?n \<and> ?n \<le> 90) \<or> (192 \<le> ?n \<and> ?n \<le> 222)"
    using True by (auto simp: is_upper_char_def Let_def)
  have "(of_char (char_of (?n + 32)) :: nat) = (?n + 32) mod 256" by simp
  also have "\<dots> = ?n + 32" using b by auto
  finally have "(of_char (lower_char c) :: nat) = ?n + 32"
    using True by (simp add: lower_char_def)
  then show ?thesis using b by (auto simp: is_upper_char_def Let_def)
qed

lemma py_lower_no_upper: "c \<in> set (py_lower s) \<Longrightarrow> \<not> is_upper_char c"
  by (auto simp: py_lower_def lower_char_not_upper)

lemma validate_entity_Some:
  assumes "validate_entity r = Some e"
  shows "(\<exists>n. raw_name r = Some n \<and> n \<noteq> [] \<and> ent_name e = py_strip n)"
    and "2 \<le> length (ent_name e)"
    and "\<not> py_isdigit (ent_name e)"
    and "\<not> list_all (\<lambda>c. c \<in> set punctuation_chars) (ent_name e)"
    and "ent_type e = py_lower (case raw_type r of None \<Rightarrow> ''misc'' | Some t \<Rightarrow> t)"
    and "ent_sentiment e \<in> {''positive'', ''negative'', ''neutral''}"
  using assms
  by (auto simp: validate_entity_def Let_def split: option.splits if_splits score_val.splits)


lemma unique_entities_fresh:
  "e \<in> set (unique_entities seen xs) \<Longrightarrow> py_lower (ent_name e) \<notin> seen"
  by (induction xs arbitrary: seen) (auto simp: Let_def split: if_splits)

lemma unique_entities_subseq: "subseq (unique_entities seen xs) xs"
  by (induction xs arbitrary: seen) (auto simp: Let_def)

lemma unique_entities_distinct:
  "distinct (map (\<lambda>e. py_lower (ent_name e)) (unique_entities seen xs))"
proof (induction xs arbitrary: seen)
  case Nil
  then show ?case by simp
next
  case (Cons x xs)
  have "py_lower (ent_name x) \<noteq> py_lower (ent_name e)"
    if "e \<in> set (unique_entities (insert (py_lower (ent_name x)) seen) xs)" for e
    using unique_entities_fresh [OF that] by auto
  with Cons.IH show ?case by (auto simp: Let_def)
qed

lemma unique_entities_first:
  "e \<in> set (unique_entities seen xs) \<Longrightarrow>
   find (\<lambda>x. py_lower (ent_name x) = py_lower (ent_name e)) xs = Some e"
proof (induction xs arbitrary: seen)
  case Nil
  then show ?case by simp
next
  case (Cons x xs)
  show ?case
  proof (cases "py_lower (ent_name x) \<in> seen")
    case True
    with Cons.prems have m: "e \<in> set (unique_entities seen xs)" by (simp add: Let_def)
    from unique_entities_fresh [OF m] True
    have "py_lower (ent_name x) \<noteq> py_lower (ent_name e)" by auto
    with Cons.IH [OF m] show ?thesis by simp
  next
    case False
    with Cons.prems consider "e = x"
      | "e \<in> set (unique_entities (insert (py_lower (ent_name x)) seen) xs)"
      by (auto simp: Let_def)
    then show ?thesis
    proof cases
      case 1
      then show ?thesis by simp
    next
      case 2
      from unique_entities_fresh [OF 2]
      have "py_lower (ent_name x) \<noteq> py_lower (ent_name e)" by auto
      with Cons.IH [OF 2] show ?thesis by simp
    qed
  qed
qed

lemma unique_entities_covers:
  "x \<in> set xs \<Longrightarrow> py_lower (ent_name x) \<notin> seen \<Longrightarrow>
   \<exists>e \<in> set (unique_entities seen xs). py_lower (ent_name e) = py_lower (ent_name x)"
proof (induction xs arbitrary: seen)
  case Nil
  then show ?case by simp
next
  case (Cons y ys)
  show ?case
  proof (cases "py_lower (ent_name y) = py_lower (ent_name x)")
    case True
    with Cons.prems(2) show ?thesis by (auto simp: Let_def)
  next
    case False
    with Cons.prems have m: "x \<in> set ys" by auto
    show ?thesis
    proof (cases "py_lower (ent_name y) \<in> seen")
      case True
      with Cons.IH [OF m Cons.prems(2)] show ?thesis by (simp add: Let_def)
    next
      case n: False
      from False Cons.prems(2)
      have "py_lower (ent_name x) \<notin> insert (py_lower (ent_name y)) seen" by auto
      from Cons.IH [OF m this] n show ?thesis by (auto simp: Let_def)
    qed
  qed
qed

lemma map_filter_mem: "e \<in> set (List.map_filter f xs) \<longleftrightarrow> (\<exists>x \<in> set xs. f x = Some e)"
  by (induction xs) (auto simp: map_filter_simps split: option.splits)

lemma unique_entities_subset: "set (unique_entities seen xs) \<subseteq> set xs"
  by (induction xs arbitrary: seen) (auto simp: Let_def)

lemma validate_entities_mem:
  "e \<in> set (validate_entities rs) \<Longrightarrow> \<exists>r \<in> set rs. validate_entity r = Some e"
  using unique_entities_subset [of "{}" "List.map_filter validate_entity rs"]
  by (auto simp: validate_entities_def map_filter_mem)

lemma create_entity_Some:
  "create_entity ok r = Some e \<Longrightarrow>
   \<exists>n. raw_name r = Some n \<and> es_name e = py_strip n \<and> es_name e \<noteq> []"
  by (auto simp: create_entity_def Let_def split: option.splits if_splits)

text \<open>Whatever model is loaded, \<^verbatim>\<open>extract_entities\<close> returns what \<^verbatim>\<open>_validate_entities\<close> returned.\<close>

lemma extract_entities_validated:
  "e \<in> set (extract_entities models t) \<Longrightarrow> \<exists>rs. e \<in> set (validate_entities rs)"
  by (auto simp: extract_entities_def split: if_splits option.splits)

text \<open>
  Claim C6, as the code has it. Every entity that \<^verbatim>\<open>_validate_entities\<close> returns comes from
  an entry with a non-empty string as its name and carries that name stripped; the name
  has at least two characters, does not consist of digits only and does not consist only
  of the characters \<^verbatim>\<open>.,!?;:()-[]{}"'\<close>. Its type is lower-cased, whatever string it is, and
  its sentiment is one of \<^verbatim>\<open>positive\<close>, \<^verbatim>\<open>negative\<close>, \<^verbatim>\<open>neutral\<close>. The lower-cased names of the
  result are distinct; the result is a subsequence of the validated entries, so order and
  casing are kept; every validated name is represented; and each entity is the first
  validated entry with its lower-cased name. \<^verbatim>\<open>validate_and_create_entities\<close> likewise only
  returns entities that come from an entry with a string name that is not blank.
\<close>

theorem validate_entities_spec:
  "(\<forall>e \<in> set (validate_entities rs).
      (\<exists>r \<in> set rs. \<exists>n. raw_name r = Some n \<and> n \<noteq> [] \<and> ent_name e = py_strip n) \<and>
      2 \<le> length (ent_name e) \<and>
      \<not> py_isdigit (ent_name e) \<and>
      \<not> list_all (\<lambda>c. c \<in> set punctuation_chars) (ent_name e) \<and>
      (\<forall>c \<in> set (ent_type e). \<not> is_upper_char c) \<and>
      ent_sentiment e \<in> {''positive'', ''negative'', ''neutral''} \<and>
      find (\<lambda>x. py_lower (ent_name x) = py_lower (ent_name e))
        (List.map_filter validate_entity rs) = Some e) \<and>
   distinct (map (\<lambda>e. py_lower (ent_name e)) (validate_entities rs)) \<and>
   subseq (validate_entities rs) (List.map_filter validate_entity rs) \<and>
   (\<forall>x \<in> set (List.map_filter validate_entity rs).
      \<exists>e \<in> set (validate_entities rs). py_lower (ent_name e) = py_lower (ent_name x)) \<and>
   (\<forall>e \<in> set (validate_and_create_entities ok (Some rs)).
      \<exists>r \<in> set rs. \<exists>n. raw_name r = Some n \<and> es_name e = py_strip n \<and> es_name e \<noteq> [])"
proof -
  have a: "(\<exists>r \<in> set rs. \<exists>n. raw_name r = Some n \<and> n \<noteq> [] \<and> ent_name e = py_strip n) \<and>
      2 \<le> length (ent_name e) \<and>
      \<not> py_isdigit (ent_name e) \<and>
      \<not> list_all (\<lambda>c. c \<in> set punctuation_chars) (ent_name e) \<and>
      (\<forall>c \<in> set (ent_type e). \<not> is_upper_char c) \<and>
      ent_sentiment e \<in> {''positive'', ''negative'', ''neutral''} \<and>
      find (\<lambda>x. py_lower (ent_name x) = py_lower (ent_name e))
        (List.map_filter validate_entity rs) = Some e"
    if m: "e \<in> set (validate_entities rs)" for e
  proof -
    from validate_entities_mem [OF m] obtain r where r: "r \<in> set rs" "validate_entity r = Some e"
      by blast
    note v = validate_entity_Some [OF r(2)]
    have t: "\<forall>c \<in> set (ent_type e). \<not> is_upper_char c"
      using v(5) py_lower_no_upper by metis
    have f: "find (\<lambda>x. py_lower (ent_name x) = py_lower (ent_name e))
        (List.map_filter validate_entity rs) = Some e"
      using m unfolding validate_entities_def by (rule unique_entities_first)
    from r(1) v(1) have n: "\<exists>r \<in> set rs. \<exists>n. raw_name r = Some n \<and> n \<noteq> [] \<and> ent_name e = py_strip n"
      by blast
    from n v(2,3,4) t v(6) f show ?thesis by blast
  qed
  have d: "distinct (map (\<lambda>e. py_lower (ent_name e)) (validate_entities rs))"
    unfolding validate_entities_def by (rule unique_entities_distinct)
  have s: "subseq (validate_entities rs) (List.map_filter validate_entity rs)"
    unfolding validate_entities_def by (rule unique_entities_subseq)
  have c: "\<exists>e \<in> set (validate_entities rs). py_lower (ent_name e) = py_lower (ent_name x)"
    if "x \<in> set (List.map_filter validate_entity rs)" for x
    unfolding validate_entities_def using that by (rule unique_entities_covers) simp
  have k: "\<exists>r \<in> set rs. \<exists>n. raw_name r = Some n \<and> es_name e = py_strip n \<and> es_name e \<noteq> []"
    if "e \<in> set (validate_and_create_entities ok (Some rs))" for e
    using that create_entity_Some
    by (fastforce simp: validate_and_create_entities_def map_filter_mem)
  from a d s c k show ?thesis by blast
qed

theorem validate_entities_spec_witness:
  "validate_entities example_entities =
     [\<lparr>ent_name = ''Apple'', ent_type = ''org'', ent_sentiment = ''positive'',
       ent_bias = None, ent_score = 0.5\<rparr>,
      \<lparr>ent_name = ''Bob'', ent_type = ''person'', ent_sentiment = ''neutral'',
       ent_bias = None, ent_score = 0.5\<rparr>] \<and>
   find (\<lambda>x. py_lower (ent_name x) = ''apple'')
     (List.map_filter validate_entity example_entities)
     = Some \<lparr>ent_name = ''Apple'', ent_type = ''org'', ent_sentiment = ''positive'',
             ent_bias = None, ent_score = 0.5\<rparr> \<and>
   distinct (map (\<lambda>e. py_lower (ent_name e)) (validate_entities example_entities))"
proof -
  let ?a = "\<lparr>ent_name = ''Apple'', ent_type = ''org'', ent_sentiment = ''positive'',
             ent_bias = None, ent_score = 0.5\<rparr>"
  let ?b = "\<lparr>ent_name = ''Bob'', ent_type = ''person'', ent_sentiment = ''neutral'',
             ent_bias = None, ent_score = 0.5\<rparr>"
  have eq: "validate_entities example_entities = [?a, ?b]" by code_simp
  have m: "?a \<in> set (validate_entities example_entities)" unfolding eq by simp
  have l: "py_lower (ent_name ?a) = ''apple''" by code_simp
  note T = validate_entities_spec [of example_entities "\<lambda>e. True"]
  from T [THEN conjunct1, THEN bspec, OF m]
  have "find (\<lambda>x. py_lower (ent_name x) = py_lower (ent_name ?a))
     (List.map_filter validate_entity example_entities) = Some ?a"
    by (elim conjE)
  then have f: "find (\<lambda>x. py_lower (ent_name x) = ''apple'')
     (List.map_filter validate_entity example_entities) = Some ?a"
    unfolding l .
  from T have d: "distinct (map (\<lambda>e. py_lower (ent_name e)) (validate_entities example_entities))"
    by (elim conjE)
  from eq f d show ?thesis by (intro conjI)
qed

lemma validate_entity_named:
  assumes "n \<noteq> []" "py_strip n = n" "2 \<le> length n" "\<not> py_isdigit n"
    and "\<not> list_all (\<lambda>c. c \<in> set punctuation_chars) n"
  shows "validate_entity (named_entity (Some n) t ''neutral'') =
     Some \<lparr>ent_name = n, ent_type = py_lower t, ent_sentiment = ''neutral'',
       ent_bias = None, ent_score = 0.5\<rparr>"
proof -
  have 4: "py_lower ''neutral'' = ''neutral''" by code_simp
  show ?thesis
    unfolding validate_entity_def named_entity_def using assms by (simp add: 4 Let_def)
qed

lemma validate_entities_single:
  "validate_entities [named_entity (Some ''Apple'') t ''neutral''] =
     [\<lparr>ent_name = ''Apple'', ent_type = py_lower t, ent_sentiment = ''neutral'',
       ent_bias = None, ent_score = 0.5\<rparr>]"
proof -
  have 1: "py_strip ''Apple'' = ''Apple''" by code_simp
  have 2: "\<not> py_isdigit ''Apple''" by code_simp
  have 3: "\<not> list_all (\<lambda>c. c \<in> set punctuation_chars) ''Apple''" by code_simp
  have "validate_entity (named_entity (Some ''Apple'') t ''neutral'') =
     Some \<lparr>ent_name = ''Apple'', ent_type = py_lower t, ent_sentiment = ''neutral'',
       ent_bias = None, ent_score = 0.5\<rparr>"
    by (rule validate_entity_named [OF _ 1 _ 2 3]) simp_all
  then show ?thesis
    by (simp add: validate_entities_def map_filter_simps Let_def)
qed

lemma py_lower_replicate_x: "py_lower (replicate n CHR ''x'') = replicate n CHR ''x''"
proof -
  have "lower_char CHR ''x'' = CHR ''x''" by code_simp
  then show ?thesis by (simp add: py_lower_def)
qed

text \<open>
  Claim C6 as stated fails for the type, which is lower-cased and never compared with a
  vocabulary: the types that the post-processing can return form an infinite set, and a
  made-up type passes. The punctuation test knows sixteen characters only, so a name of
  other punctuation characters, such as \<^verbatim>\<open>##\<close>, is kept.
\<close>

theorem entity_vocabulary_counterexample:
  "\<not> finite {ent_type e | e rs. e \<in> set (validate_entities rs)} \<and>
   map ent_type (validate_entities [named_entity (Some ''Apple'') ''Made-Up Kind'' ''neutral''])
     = [''made-up kind''] \<and>
   map ent_name (validate_entities [named_entity (Some ''##'') ''ORG'' ''neutral'']) = [''##'']"
proof -
  let ?S = "{ent_type e | e rs. e \<in> set (validate_entities rs)}"
  have "replicate n CHR ''x'' \<in> ?S" for n
  proof -
    let ?e = "\<lparr>ent_name = ''Apple'', ent_type = replicate n CHR ''x'', ent_sentiment = ''neutral'',
       ent_bias = None, ent_score = 0.5\<rparr>"
    let ?rs = "[named_entity (Some ''Apple'') (replicate n CHR ''x'') ''neutral'']"
    have "?e \<in> set (validate_entities ?rs)"
      by (simp add: validate_entities_single py_lower_replicate_x)
    moreover have "replicate n CHR ''x'' = ent_type ?e" by simp
    ultimately have "\<exists>e rs. replicate n CHR ''x'' = ent_type e \<and> e \<in> set (validate_entities rs)"
      by blast
    then show ?thesis by simp
  qed
  then have sub: "range (\<lambda>n. replicate n CHR ''x'') \<subseteq> ?S" by blast
  have "inj (\<lambda>n. replicate n CHR ''x'')"
    by (rule injI) (metis length_replicate)
  then have "infinite (range (\<lambda>n. replicate n CHR ''x''))"
    by (simp add: finite_image_iff)
  with sub have inf: "\<not> finite ?S" using finite_subset by blast
  have t: "map ent_type (validate_entities [named_entity (Some ''Apple'') ''Made-Up Kind'' ''neutral''])
     = [''made-up kind'']" by code_simp
  have p: "map ent_name (validate_entities [named_entity (Some ''##'') ''ORG'' ''neutral'']) = [''##'']"
    by code_simp
  from inf t p show ?thesis by (intro conjI)
qed

section \<open>The per-item pipeline and the ingestion cycle\<close>

lemma store_log_call [simp]: "store (log_call c w) = store w"
  by (simp add: log_call_def)

lemma calls_log_call [simp]: "calls (log_call c w) = calls w @ [c]"
  by (simp add: log_call_def)

lemma safe_nlp_operation_fst:
  "fst (safe_nlp_operation name f arg w) = log_call (NlpCall name arg) w"
  by (simp add: safe_nlp_operation_def)

lemma safe_nlp_operation_snd:
  "snd (safe_nlp_operation name f arg w) = (case f arg of Inl ex \<Rightarrow> None | Inr v \<Rightarrow> Some v)"
  by (simp add: safe_nlp_operation_def)

lemma nlp_pipeline_store: "store (fst (nlp_pipeline e t w)) = store w"
  by (simp add: nlp_pipeline_def safe_nlp_operation_def Let_def split: prod.splits if_splits)

lemma nlp_pipeline_snd: "snd (nlp_pipeline e t w) = snd (nlp_pipeline e t w')"
  by (simp add: nlp_pipeline_def safe_nlp_operation_def Let_def split: prod.splits if_splits)





lemma nlp_pipeline_calls:
  "set (calls (fst (nlp_pipeline e t w))) \<supseteq>
     {NlpCall ''Language detection'' t,
      NlpCall ''Summarization'' (nlp_text (snd (nlp_pipeline e t w))),
      NlpCall ''Entity extraction'' (nlp_text (snd (nlp_pipeline e t w))),
      NlpCall ''Bias classification'' (nlp_text (snd (nlp_pipeline e t w))),
      NlpCall ''Sentiment classification'' (nlp_text (snd (nlp_pipeline e t w)))}"
  by (auto simp: nlp_pipeline_def safe_nlp_operation_def Let_def
      split: prod.splits if_splits option.splits sum.splits)

lemma process_single_article_new:
  assumes "es_reachable e" "entry_link entry = Some url" "generate_id url \<notin> dom (store w)"
    and "snd (download_article e url w) = Some raw"
  shows "snd (process_single_article e entry w) =
     (let text = truncate_text (raw_text raw);
          d = build_doc e entry url raw (title_logic entry raw text url)
                (snd (nlp_pipeline e text w))
      in if article_doc_ok e d
         then Inr (Some \<lparr>act_index = INDEX_NAME e, act_id = generate_id url, act_source = d\<rparr>)
         else Inl ValidationError)"
proof -
  let ?w1 = "log_call (EsExists (generate_id url)) (log_call EsPing w)"
  have "snd (download_article e url ?w1) = Some raw"
    using assms(4) by (simp add: snd_download_article)
  then obtain w2 where d: "download_article e url ?w1 = (w2, Some raw)"
    by (metis prod.collapse)
  obtain w3 n where n: "nlp_pipeline e (truncate_text (raw_text raw)) w2 = (w3, n)"
    by (metis prod.collapse)
  have "n = snd (nlp_pipeline e (truncate_text (raw_text raw)) w)"
    using nlp_pipeline_snd [of e "truncate_text (raw_text raw)" w2 w] n by simp
  then show ?thesis
    using assms(1,2,3) d n by (simp add: process_single_article_def Let_def)
qed

lemma process_single_article_store: "store (fst (process_single_article e entry w)) = store w"
proof -
  have "store (fst (download_article e url w')) = store w'" for url w'
    by (rule store_download_article)
  then have d: "download_article e url w' = (w2, r) \<Longrightarrow> store w2 = store w'" for url w' w2 r
    by (metis fst_conv)
  have n: "nlp_pipeline e t w' = (w3, r) \<Longrightarrow> store w3 = store w'" for t w' w3 r
    using nlp_pipeline_store [of e t w'] by simp
  show ?thesis
    by (auto simp: process_single_article_def Let_def dest!: d n
        split: option.splits prod.splits if_splits)
qed

lemma process_single_article_Some:
  assumes "snd (process_single_article e entry w) = Inr (Some a)"
  shows "\<exists>url raw. es_reachable e \<and> entry_link entry = Some url \<and>
           generate_id url \<notin> dom (store w) \<and> snd (download_article e url w) = Some raw"
proof -
  have r: "es_reachable e" using assms
    by (auto simp: process_single_article_def Let_def split: if_splits)
  then obtain url where u: "entry_link entry = Some url" using assms
    by (auto simp: process_single_article_def Let_def split: option.splits)
  have i: "generate_id url \<notin> dom (store w)"
    using assms r u by (auto simp: process_single_article_def Let_def split: if_splits)
  let ?w1 = "log_call (EsExists (generate_id url)) (log_call EsPing w)"
  obtain w2 res where d: "download_article e url ?w1 = (w2, res)" by (metis prod.collapse)
  have "res \<noteq> None"
    using assms r u i d by (auto simp: process_single_article_def Let_def)
  then obtain raw where "res = Some raw" by blast
  with d have "snd (download_article e url w) = Some raw"
    using snd_download_article [of e url ?w1] snd_download_article [of e url w] by simp
  with r u i show ?thesis by blast
qed

lemma process_single_article_existing:
  assumes "es_reachable e" "entry_link entry = Some url" "generate_id url \<in> dom (store w)"
  shows "process_single_article e entry w =
           (w\<lparr>calls := calls w @ [EsPing, EsExists (generate_id url)]\<rparr>, Inr None)"
  using assms by (simp add: process_single_article_def Let_def log_call_def)

lemma process_single_article_dropped:
  assumes "es_reachable e" "entry_link entry = Some url" "generate_id url \<notin> dom (store w)"
    and "snd (download_article e url w) = None"
  shows "snd (process_single_article e entry w) = Inr None"
proof -
  let ?w1 = "log_call (EsExists (generate_id url)) (log_call EsPing w)"
  have "snd (download_article e url ?w1) = None"
    using assms(4) by (simp add: snd_download_article)
  then obtain w2 where "download_article e url ?w1 = (w2, None)"
    by (metis prod.collapse)
  then show ?thesis
    using assms(1,2,3) by (simp add: process_single_article_def Let_def)
qed

lemma process_single_article_snd_store:
  assumes "store w = store w'"
  shows "snd (process_single_article e entry w) = snd (process_single_article e entry w')"
proof (cases "es_reachable e")
  case False
  then show ?thesis by (simp add: process_single_article_def Let_def)
next
  case r: True
  show ?thesis
  proof (cases "entry_link entry")
    case None
    with r show ?thesis by (simp add: process_single_article_def Let_def)
  next
    case (Some url)
    show ?thesis
    proof (cases "generate_id url \<in> dom (store w)")
      case True
      with assms have "generate_id url \<in> dom (store w')" by simp
      with True r Some show ?thesis
        by (simp add: process_single_article_existing)
    next
      case False
      with assms have f': "generate_id url \<notin> dom (store w')" by simp
      have d: "snd (download_article e url w) = snd (download_article e url w')"
        by (simp add: snd_download_article)
      show ?thesis
      proof (cases "snd (download_article e url w)")
        case None
        with d have "snd (download_article e url w') = None" by simp
        from process_single_article_dropped [OF r Some False None]
          process_single_article_dropped [OF r Some f' this]
        show ?thesis by simp
      next
        case (Some raw)
        with d have "snd (download_article e url w') = Some raw" by simp
        from process_single_article_new [OF r \<open>entry_link entry = Some url\<close> False Some]
          process_single_article_new [OF r \<open>entry_link entry = Some url\<close> f' this]
          nlp_pipeline_snd [of e "truncate_text (raw_text raw)" w w']
        show ?thesis by simp
      qed
    qed
  qed
qed


lemma process_entries_snd_store:
  "store w = store w' \<Longrightarrow> snd (process_entries e entries w) = snd (process_entries e entries w')"
proof (induction entries arbitrary: w w')
  case Nil
  then show ?case by simp
next
  case (Cons entry entries)
  obtain w1 r where p: "process_single_article e entry w = (w1, r)" by (metis prod.collapse)
  obtain w1' r' where p': "process_single_article e entry w' = (w1', r')" by (metis prod.collapse)
  have rr: "r = r'"
    using process_single_article_snd_store [OF Cons.prems, of e entry] p p' by simp
  have "store w1 = store w1'"
    using process_single_article_store [of e entry w] process_single_article_store [of e entry w']
      p p' Cons.prems by simp
  from Cons.IH [OF this] have "snd (process_entries e entries w1) = snd (process_entries e entries w1')" .
  with p p' rr show ?case by (simp add: split_beta)
qed

lemma process_entries_new_ids:
  "a \<in> set (snd (process_entries e entries w)) \<Longrightarrow> act_id a \<notin> dom (store w)"
proof (induction entries arbitrary: w)
  case Nil
  then show ?case by simp
next
  case (Cons entry entries)
  obtain w1 r where p: "process_single_article e entry w = (w1, r)" by (metis prod.collapse)
  then have s: "store w1 = store w"
    using process_single_article_store [of e entry w] by simp
  from Cons.prems p consider "r = Inr (Some a)" | "a \<in> set (snd (process_entries e entries w1))"
    by (auto simp: split_beta split: sum.splits option.splits)
  then show ?case
  proof cases
    case 1
    with p have sa: "snd (process_single_article e entry w) = Inr (Some a)" by simp
    from process_single_article_Some [OF sa] obtain url raw where
      h: "es_reachable e" "entry_link entry = Some url" "generate_id url \<notin> dom (store w)"
        "snd (download_article e url w) = Some raw" by blast
    from process_single_article_new [OF h] sa have "act_id a = generate_id url"
      by (auto simp: Let_def split: if_splits)
    with h(3) show ?thesis by simp
  next
    case 2
    from Cons.IH [OF 2] s show ?thesis by simp
  qed
qed

text \<open>
  Claim C2. When the store is reachable and the identifier of the item's URL is in the
  store, \<^verbatim>\<open>process_single_article\<close> returns \<^verbatim>\<open>None\<close>; the world it leaves differs from the one
  it found only by the ping and the existence check in the log, so nothing was downloaded,
  no analyzer ran and the store is the same. The batch of an entry list that starts with
  such an item is the batch of the rest of the list, and no action of the batch carries
  the item's identifier.
\<close>

theorem dedup_gate_skips_existing:
  assumes "es_reachable e" "entry_link entry = Some url" "generate_id url \<in> dom (store w)"
  shows "process_single_article e entry w =
           (w\<lparr>calls := calls w @ [EsPing, EsExists (generate_id url)]\<rparr>, Inr None) \<and>
         snd (process_entries e (entry # rest) w) = snd (process_entries e rest w) \<and>
         (\<forall>a \<in> set (snd (process_entries e (entry # rest) w)). act_id a \<noteq> generate_id url)"
proof -
  note x = process_single_article_existing [OF assms]
  have "store (w\<lparr>calls := calls w @ [EsPing, EsExists (generate_id url)]\<rparr>) = store w" by simp
  from process_entries_snd_store [OF this]
  have b: "snd (process_entries e (entry # rest) w) = snd (process_entries e rest w)"
    by (simp add: x split_beta)
  have c: "act_id a \<noteq> generate_id url" if "a \<in> set (snd (process_entries e (entry # rest) w))" for a
    using process_entries_new_ids [OF that] assms(3) by auto
  from x b c show ?thesis by blast
qed

theorem dedup_gate_skips_existing_witness:
  "process_single_article (example_env 200 example_body) example_entry stored_world =
     (stored_world\<lparr>calls := [EsPing, EsExists (generate_id ''http://a.test/1'')]\<rparr>, Inr None) \<and>
   snd (process_entries (example_env 200 example_body) [example_entry] stored_world) = []"
proof -
  let ?e = "example_env 200 example_body"
  have h1: "es_reachable ?e" by (simp add: example_env_def)
  have h2: "entry_link example_entry = Some ''http://a.test/1''" by (simp add: example_entry_def)
  have h3: "generate_id ''http://a.test/1'' \<in> dom (store stored_world)"
    by (simp add: stored_world_def)
  have c: "calls stored_world = []" by (simp add: stored_world_def)
  from dedup_gate_skips_existing [OF h1 h2 h3, of "[]"] show ?thesis
    by (simp add: c)
qed







lemma process_single_article_new_fst:
  assumes "es_reachable e" "entry_link entry = Some url" "generate_id url \<notin> dom (store w)"
    and "snd (download_article e url w) = Some raw"
  shows "\<exists>w2. fst (process_single_article e entry w) =
           fst (nlp_pipeline e (truncate_text (raw_text raw)) w2)"
proof -
  let ?w1 = "log_call (EsExists (generate_id url)) (log_call EsPing w)"
  have "snd (download_article e url ?w1) = Some raw"
    using assms(4) by (simp add: snd_download_article)
  then obtain w2 where d: "download_article e url ?w1 = (w2, Some raw)"
    by (metis prod.collapse)
  have "fst (process_single_article e entry w) =
           fst (nlp_pipeline e (truncate_text (raw_text raw)) w2)"
    using assms(1,2,3) d by (simp add: process_single_article_def Let_def split_beta)
  then show ?thesis by blast
qed

lemma length_truncate_text: "length (truncate_text t) \<le> max_chars"
  by (auto simp: truncate_text_def Let_def)

text \<open>
  Claim C10. In every document that \<^verbatim>\<open>process_single_article\<close> builds, the original text is
  the first 5000 characters of the extracted body, so it has at most 5000 characters;
  the analyzers start from another copy, the body truncated to at most 3200 characters.
\<close>

theorem original_text_truncated:
  assumes "snd (process_single_article e entry w) = Inr (Some a)"
  shows "\<exists>url raw. entry_link entry = Some url \<and> snd (download_article e url w) = Some raw \<and>
           doc_original_text (act_source a) = take 5000 (raw_text raw) \<and>
           length (doc_original_text (act_source a)) \<le> 5000 \<and>
           NlpCall ''Language detection'' (truncate_text (raw_text raw))
             \<in> set (calls (fst (process_single_article e entry w))) \<and>
           length (truncate_text (raw_text raw)) \<le> 3200"
proof -
  from process_single_article_Some [OF assms] obtain url raw where
    h: "es_reachable e" "entry_link entry = Some url" "generate_id url \<notin> dom (store w)"
      "snd (download_article e url w) = Some raw" by blast
  from process_single_article_new [OF h] assms
  have o: "doc_original_text (act_source a) = take 5000 (raw_text raw)"
    by (auto simp: Let_def build_doc_def split: if_splits)
  then have l: "length (doc_original_text (act_source a)) \<le> 5000" by simp
  have c: "NlpCall ''Language detection'' (truncate_text (raw_text raw))
             \<in> set (calls (fst (process_single_article e entry w)))"
    using process_single_article_new_fst [OF h]
      nlp_pipeline_calls [where e = e and t = "truncate_text (raw_text raw)"] by auto
  have t: "length (truncate_text (raw_text raw)) \<le> 3200"
    using length_truncate_text [of "raw_text raw"] by (simp add: max_chars_def)
  from h(2,4) o l c t show ?thesis by blast
qed

theorem original_text_truncated_witness:
  "\<exists>a. snd (process_single_article
             ((example_env 200 (replicate 6000 CHR ''a''))
                \<lparr>trafilatura_meta_title := (\<lambda>html. Some ''Breaking: X raises funds'')\<rparr>)
             example_entry empty_world) = Inr (Some a) \<and>
        doc_original_text (act_source a) = replicate 5000 CHR ''a'' \<and>
        length (doc_original_text (act_source a)) \<le> 5000"
proof -
  let ?e = "(example_env 200 (replicate 6000 CHR ''a''))
                \<lparr>trafilatura_meta_title := (\<lambda>html. Some ''Breaking: X raises funds'')\<rparr>"
  let ?u = "''http://a.test/1''"
  let ?r = "\<lparr>raw_title = Some ''Breaking: X raises funds'',
            raw_text = replicate 6000 CHR ''a'', raw_method = ''trafilatura'',
            raw_publish_date = None\<rparr>"
  have h1: "es_reachable ?e" by (simp add: example_env_def)
  have h2: "entry_link example_entry = Some ?u" by (simp add: example_entry_def)
  have h3: "generate_id ?u \<notin> dom (store empty_world)" by (simp add: empty_world_def)
  have sp: "\<not> py_isspace CHR ''a''" by code_simp
  have st: "py_strip (replicate 6000 CHR ''a'') = replicate 6000 CHR ''a''"
    by (simp add: py_strip_def py_lstrip_def py_rstrip_def dropWhile_replicate sp)
  have ct: "clean_title ''Breaking: X raises funds'' = ''Breaking: X raises funds''"
    and vt: "is_valid_title ''Breaking: X raises funds''"
    by code_simp+
  have "try_trafilatura ?e ?u = Some ?r"
    by (simp add: try_trafilatura_def example_env_def st ct vt falsy_def Let_def)
  then have h4: "snd (download_article ?e ?u empty_world) = Some ?r"
    by (simp add: snd_download_article)
  have ok: "article_doc_ok ?e d" for d by (simp add: example_env_def)
  from process_single_article_new [OF h1 h2 h3 h4] ok
  obtain a where a: "snd (process_single_article ?e example_entry empty_world) = Inr (Some a)"
    by (simp add: Let_def)
  from original_text_truncated [OF a] h2 h4
  have o: "doc_original_text (act_source a) = take 5000 (raw_text ?r)"
    and l: "length (doc_original_text (act_source a)) \<le> 5000"
    by auto
  from o have "doc_original_text (act_source a) = replicate 5000 CHR ''a''" by simp
  with a l show ?thesis by blast
qed

end
